theory Spec2Isabelle
  imports Main "HOL-Library.Word" "HOL-Library.Sublist"
begin

unbundle bit_operations_syntax

section \<open>Byte cursor (class ReadData)\<close>

text \<open>
  Python \<^verbatim>\<open>bytes\<close> are sequences of integers in 0..255: lists of 8-bit words. Python's own
  integers are unbounded: \<open>int\<close>. Positions and sizes are never negative at any call site
  of the program (sizes are LEB128u values or differences \<open>pos - rpos\<close> with
  \<open>rpos < pos\<close>): \<open>nat\<close>.
\<close>

type_synonym byte = "8 word"

text \<open>The exceptions the program can raise, by their Python class, with the message where
  the program gives one.\<close>

datatype error =
    IOError string
  | IndexError
  | NotImplementedError string
  | ValueError
  | UnicodeDecodeError
  | AttributeError string
  | TypeError

record ReadData =
  path :: string
  data :: "byte list"
  fpos :: nat
  rpos :: nat

text \<open>Class \<^verbatim>\<open>ValueData\<close> and its subclasses \<^verbatim>\<open>Integer\<close> (\<^verbatim>\<open>__int__\<close> returns the value) and
  \<^verbatim>\<open>String\<close> (\<^verbatim>\<open>__str__\<close> returns the value): a decoded value with the bytes it came from.\<close>

record 'a ValueData =
  val :: 'a
  dat :: ReadData

type_synonym Integer = "int ValueData"
type_synonym String = "string ValueData"

definition remain :: "ReadData \<Rightarrow> nat" where
  "remain c = length (data c) - rpos c"

text \<open>\<^verbatim>\<open>read(size)\<close>: the slice \<^verbatim>\<open>data[rpos:rpos+size]\<close> may be short; the cursor advances by
  what was there. The result is a fresh \<^verbatim>\<open>ReadData\<close> at the absolute offset.\<close>

definition read :: "nat \<Rightarrow> ReadData \<Rightarrow> ReadData \<times> ReadData" where
  "read sz c =
     (let fp = fpos c + rpos c;
          d = take sz (drop (rpos c) (data c))
      in (\<lparr>path = path c, data = d, fpos = fp, rpos = 0\<rparr>, c\<lparr>rpos := rpos c + length d\<rparr>))"

text \<open>\<^verbatim>\<open>load(size)\<close>: as \<^verbatim>\<open>read\<close>, raising \<^verbatim>\<open>IOError\<close> on a short read (the cursor has moved).\<close>

definition load :: "nat \<Rightarrow> ReadData \<Rightarrow> (error + ReadData) \<times> ReadData" where
  "load sz c =
     (case read sz c of (d, c') \<Rightarrow>
        if length (data d) \<noteq> sz then (Inl (IOError (''not enough data: '' @ path c)), c')
        else (Inr d, c'))"

text \<open>\<^verbatim>\<open>reload(rpos)\<close>: \<^verbatim>\<open>rlen = self.rpos - rpos; self.rpos = rpos; return self.load(rlen)\<close>.
  With a position beyond the current one \<^verbatim>\<open>rlen\<close> is negative, the slice is empty and
  \<^verbatim>\<open>load\<close> raises.\<close>

definition reload :: "nat \<Rightarrow> ReadData \<Rightarrow> (error + ReadData) \<times> ReadData" where
  "reload pos c =
     (if pos \<le> rpos c then load (rpos c - pos) (c\<lparr>rpos := pos\<rparr>)
      else (Inl (IOError (''not enough data: '' @ path c)), c\<lparr>rpos := pos\<rparr>))"

definition byte :: "ReadData \<Rightarrow> (error + Integer) \<times> ReadData" where
  "byte c =
     (case load 1 c of
        (Inl e, c') \<Rightarrow> (Inl e, c')
      | (Inr d, c') \<Rightarrow> (Inr \<lparr>val = uint (data d ! 0), dat = d\<rparr>, c'))"

text \<open>\<^verbatim>\<open>long()\<close> uses \<^verbatim>\<open>read(4)\<close>, not \<^verbatim>\<open>load(4)\<close>: on a short read the indexing \<^verbatim>\<open>data[i]\<close>
  raises \<^verbatim>\<open>IndexError\<close>.\<close>

definition long :: "ReadData \<Rightarrow> (error + Integer) \<times> ReadData" where
  "long c =
     (case read 4 c of (d, c') \<Rightarrow>
        if length (data d) < 4 then (Inl IndexError, c')
        else (Inr \<lparr>val = uint (data d ! 0) OR push_bit 8 (uint (data d ! 1))
                         OR push_bit 16 (uint (data d ! 2)) OR push_bit 24 (uint (data d ! 3)),
                   dat = d\<rparr>, c'))"

text \<open>The scanning loop of \<^verbatim>\<open>leb128()\<close>: from \<open>pos\<close>, step over bytes with the high bit set;
  the result is the position after the first byte without it. Indexing past the end of
  the buffer raises \<^verbatim>\<open>IndexError\<close>: \<open>None\<close>.\<close>

function leb128_scan :: "byte list \<Rightarrow> nat \<Rightarrow> nat option" where
  "leb128_scan d pos =
     (if pos < length d
      then (if d ! pos AND 0x80 \<noteq> 0 then leb128_scan d (pos + 1) else Some (pos + 1))
      else None)"
  by pat_completeness auto
termination
  by (relation "measure (\<lambda>(d, pos). length d - pos)") auto

declare leb128_scan.simps [simp del]

definition leb128 :: "ReadData \<Rightarrow> (error + ReadData) \<times> ReadData" where
  "leb128 c =
     (case leb128_scan (data c) (rpos c) of
        None \<Rightarrow> (Inl IndexError, c)
      | Some pos \<Rightarrow> (case read (pos - rpos c) c of (d, c') \<Rightarrow> (Inr d, c')))"

text \<open>\<^verbatim>\<open>sum((v & 0x7f) << (n * 7) for n, v in enumerate(data))\<close>\<close>

definition decode_leb128u :: "byte list \<Rightarrow> int" where
  "decode_leb128u d = sum_list (map (\<lambda>(n, v). push_bit (n * 7) (uint v AND 0x7F)) (enumerate 0 d))"

text \<open>\<^verbatim>\<open>val - (1 << (len(data) * 7)) if data[-1] & 0x40 else val\<close>; \<^verbatim>\<open>data[-1]\<close> raises on
  empty data.\<close>

definition decode_leb128s :: "byte list \<Rightarrow> error + int" where
  "decode_leb128s d =
     (if d = [] then Inl IndexError
      else Inr (let v = decode_leb128u d
                in if last d AND 0x40 \<noteq> 0 then v - push_bit (length d * 7) 1 else v))"

definition leb128u :: "ReadData \<Rightarrow> (error + Integer) \<times> ReadData" where
  "leb128u c =
     (case leb128 c of
        (Inl e, c') \<Rightarrow> (Inl e, c')
      | (Inr d, c') \<Rightarrow> (Inr \<lparr>val = decode_leb128u (data d), dat = d\<rparr>, c'))"

definition leb128s :: "ReadData \<Rightarrow> (error + Integer) \<times> ReadData" where
  "leb128s c =
     (case leb128 c of
        (Inl e, c') \<Rightarrow> (Inl e, c')
      | (Inr d, c') \<Rightarrow>
          (case decode_leb128s (data d) of
             Inl e \<Rightarrow> (Inl e, c')
           | Inr v \<Rightarrow> (Inr \<lparr>val = v, dat = d\<rparr>, c')))"

text \<open>Library functions of Python that the program calls and whose results are text:
  \<^verbatim>\<open>codecs.decode\<close> (UTF-8; \<open>None\<close> when it raises \<^verbatim>\<open>UnicodeDecodeError\<close>),
  \<^verbatim>\<open>str(unpack('<f', b)[0])\<close> and \<^verbatim>\<open>str(unpack('<d', b)[0])\<close> (floating point), and the
  default \<^verbatim>\<open>str\<close> of an object without \<^verbatim>\<open>__str__\<close> (it prints an address). They are
  parameters of the model.\<close>

record pylib =
  codecs_decode :: "byte list \<Rightarrow> string option"
  unpack_f :: "byte list \<Rightarrow> string"
  unpack_d :: "byte list \<Rightarrow> string"
  object_str :: "Integer \<Rightarrow> string"

text \<open>\<^verbatim>\<open>utf8()\<close>: the span of the result is the span of the length prefix, extended in place
  by the payload.\<close>

definition utf8 :: "pylib \<Rightarrow> ReadData \<Rightarrow> (error + String) \<times> ReadData" where
  "utf8 L c =
     (case leb128u c of
        (Inl e, c1) \<Rightarrow> (Inl e, c1)
      | (Inr cnt, c1) \<Rightarrow>
          (case load (nat (val cnt)) c1 of
             (Inl e, c2) \<Rightarrow> (Inl e, c2)
           | (Inr u, c2) \<Rightarrow>
               (let sp = (dat cnt)\<lparr>data := data (dat cnt) @ data u\<rparr>
                in case codecs_decode L (data u) of
                     None \<Rightarrow> (Inl UnicodeDecodeError, c2)
                   | Some s \<Rightarrow> (Inr \<lparr>val = s, dat = sp\<rparr>, c2))))"

text \<open>One LEB128: a non-empty byte sequence in which every byte but the last has the high
  bit set and the last has it clear.\<close>

definition is_leb128 :: "byte list \<Rightarrow> bool" where
  "is_leb128 bs \<longleftrightarrow> bs \<noteq> [] \<and> (\<forall>b \<in> set (butlast bs). b AND 0x80 \<noteq> 0) \<and> last bs AND 0x80 = 0"

section \<open>The span invariant of the cursor\<close>

text \<open>The cursor invariant: the read position lies within the buffer.\<close>


definition within :: "ReadData \<Rightarrow> bool" where
  "within c \<longleftrightarrow> rpos c \<le> length (data c)"

text \<open>A span \<open>sp\<close> returned by a read that took the cursor from \<open>c\<close> to \<open>c'\<close>: it starts at
  the absolute position of \<open>c\<close> and is as long as the cursor moved.\<close>

definition span_of :: "ReadData \<Rightarrow> ReadData \<Rightarrow> ReadData \<Rightarrow> bool" where
  "span_of c sp c' \<longleftrightarrow> fpos sp = fpos c + rpos c \<and> rpos c' = rpos c + length (data sp)"

text \<open>What \<^verbatim>\<open>reload\<close> returns instead: the span from the saved position up to the current
  one, with the cursor where it was.\<close>

definition rewound_span :: "nat \<Rightarrow> ReadData \<Rightarrow> ReadData \<Rightarrow> ReadData \<Rightarrow> bool" where
  "rewound_span pos c sp c' \<longleftrightarrow>
     fpos sp = fpos c + pos \<and> pos + length (data sp) = rpos c \<and> rpos c' = rpos c"



definition spans :: "ReadData \<Rightarrow> ('a \<Rightarrow> ReadData) \<Rightarrow> (error + 'a) \<times> ReadData \<Rightarrow> bool" where
  "spans c sp res =
     (case res of
        (Inl e, c') \<Rightarrow> within c'
      | (Inr x, c') \<Rightarrow> span_of c (sp x) c' \<and> within c')"

definition rewinds :: "nat \<Rightarrow> ReadData \<Rightarrow> (error + ReadData) \<times> ReadData \<Rightarrow> bool" where
  "rewinds pos c res =
     (case res of
        (Inl e, c') \<Rightarrow> within c'
      | (Inr sp, c') \<Rightarrow> rewound_span pos c sp c' \<and> within c')"

section \<open>Output and the decoder monad\<close>

text \<open>
  The program writes its dump with \<^verbatim>\<open>print\<close> and \<^verbatim>\<open>dprint(data, message)\<close>. The model records
  the calls in order: the line printed, or the bytes (if any) and the annotation lines
  handed to \<^verbatim>\<open>dprint\<close>. How \<^verbatim>\<open>dprint\<close> lays the two columns out is not modelled; what is kept
  of the layout code is that \<^verbatim>\<open>range(0, len(data), BYTESW)\<close> raises \<^verbatim>\<open>ValueError\<close> for a zero
  step.

  A decoder works on the cursor it was handed (\<open>stream\<close>) and appends to the output; an
  exception ends it. The global \<^verbatim>\<open>BYTESW\<close> is set once from the command line.
\<close>

datatype event = Print string | Dprint "ReadData option" "string list"

record state =
  stream :: ReadData
  out :: "event list"
  BYTESW :: int

type_synonym 'a dec = "state \<Rightarrow> (error + 'a) \<times> state"

definition return :: "'a \<Rightarrow> 'a dec" where
  "return x = (\<lambda>s. (Inr x, s))"

definition raise :: "error \<Rightarrow> 'a dec" where
  "raise e = (\<lambda>s. (Inl e, s))"

definition bind :: "'a dec \<Rightarrow> ('a \<Rightarrow> 'b dec) \<Rightarrow> 'b dec" where
  "bind m f = (\<lambda>s. case m s of (Inl e, s') \<Rightarrow> (Inl e, s') | (Inr x, s') \<Rightarrow> f x s')"

text \<open>A method call on the stream.\<close>

definition rd :: "(ReadData \<Rightarrow> (error + 'a) \<times> ReadData) \<Rightarrow> 'a dec" where
  "rd f = (\<lambda>s. case f (stream s) of (r, c') \<Rightarrow> (r, s\<lparr>stream := c'\<rparr>))"

definition get_rpos :: "nat dec" where
  "get_rpos = (\<lambda>s. (Inr (rpos (stream s)), s))"

definition get_remain :: "nat dec" where
  "get_remain = (\<lambda>s. (Inr (remain (stream s)), s))"

definition print :: "string \<Rightarrow> unit dec" where
  "print line = (\<lambda>s. (Inr (), s\<lparr>out := out s @ [Print line]\<rparr>))"

definition dprints :: "ReadData option \<Rightarrow> string list \<Rightarrow> unit dec" where
  "dprints d message =
     (\<lambda>s. if d \<noteq> None \<and> BYTESW s = 0 then (Inl ValueError, s)
          else (Inr (), s\<lparr>out := out s @ [Dprint d message]\<rparr>))"

definition dprint :: "ReadData option \<Rightarrow> string \<Rightarrow> unit dec" where
  "dprint d message = dprints d [message]"

text \<open>\<^verbatim>\<open>for x in xs: body\<close>\<close>

primrec for_each :: "'a list \<Rightarrow> ('a \<Rightarrow> unit dec) \<Rightarrow> unit dec" where
  "for_each [] body = return ()"
| "for_each (x # xs) body = bind (body x) (\<lambda>_. for_each xs body)"

text \<open>\<^verbatim>\<open>range(n)\<close> for an \<^verbatim>\<open>int\<close>: empty when \<open>n \<le> 0\<close>.\<close>

definition py_range :: "int \<Rightarrow> nat list" where
  "py_range n = [0..<nat n]"

section \<open>Text formatting\<close>

definition digit_char :: "nat \<Rightarrow> char" where
  "digit_char n = ''0123456789abcdef'' ! n"

fun hex :: "nat \<Rightarrow> string" where
  "hex n = (if n < 16 then [digit_char n] else hex (n div 16) @ [digit_char (n mod 16)])"

declare hex.simps [simp del]

text \<open>\<^verbatim>\<open>f'{n:02x}'\<close> for \<open>n \<ge> 0\<close>: at least two lower-case hexadecimal digits.\<close>

definition hex02 :: "int \<Rightarrow> string" where
  "hex02 n = (let h = hex (nat n) in replicate (2 - length h) CHR ''0'' @ h)"

fun decimal :: "nat \<Rightarrow> string" where
  "decimal n = (if n < 10 then [digit_char n] else decimal (n div 10) @ [digit_char (n mod 10)])"

declare decimal.simps [simp del]

text \<open>\<^verbatim>\<open>str(n)\<close> for an \<^verbatim>\<open>int\<close>.\<close>

definition str_int :: "int \<Rightarrow> string" where
  "str_int n = (if n < 0 then ''-'' @ decimal (nat (- n)) else decimal (nat n))"

text \<open>\<^verbatim>\<open>sep.join(xs)\<close>\<close>

fun join :: "string \<Rightarrow> string list \<Rightarrow> string" where
  "join sep [] = ''''"
| "join sep [x] = x"
| "join sep (x # y # ys) = x @ sep @ join sep (y # ys)"

text \<open>\<^verbatim>\<open>repr\<close> of a \<^verbatim>\<open>bytes\<close> object, as CPython writes it: single quotes unless the bytes hold
  a single quote and no double quote; backslash escapes for the quote, the backslash, tab,
  newline and carriage return; \<^verbatim>\<open>\xNN\<close> for the other bytes outside 0x20..0x7E.\<close>

definition repr_byte :: "char \<Rightarrow> byte \<Rightarrow> string" where
  "repr_byte quote b =
     (let c = char_of (unat b) in
      if c = quote \<or> c = CHR 0x5C then [CHR 0x5C, c]
      else if b = 0x09 then [CHR 0x5C, CHR ''t'']
      else if b = 0x0A then [CHR 0x5C, CHR ''n'']
      else if b = 0x0D then [CHR 0x5C, CHR ''r'']
      else if b < 0x20 \<or> 0x7F \<le> b then [CHR 0x5C, CHR ''x''] @ hex02 (uint b)
      else [c])"

definition bytes_repr :: "byte list \<Rightarrow> string" where
  "bytes_repr bs =
     (let quote = (if 0x27 \<in> set bs \<and> 0x22 \<notin> set bs then CHR 0x22 else CHR 0x27)
      in [CHR ''b'', quote] @ concat (map (repr_byte quote) bs) @ [quote])"

text \<open>\<^verbatim>\<open>''.join(chr(c) if c in range(0x20, 0x7F) else '.' for c in data)\<close>\<close>

definition data_string :: "byte list \<Rightarrow> string" where
  "data_string d = map (\<lambda>c. if 0x20 \<le> c \<and> c < 0x7F then char_of (unat c) else CHR ''.'') d"

text \<open>The slices \<^verbatim>\<open>data[p:p+w]\<close> for \<^verbatim>\<open>p in range(0, len(data), w)\<close> with \<open>w > 0\<close>.\<close>

fun chunks :: "nat \<Rightarrow> 'a list \<Rightarrow> 'a list list" where
  "chunks w xs = (if w = 0 \<or> xs = [] then [] else take w xs # chunks w (drop w xs))"

declare chunks.simps [simp del]

text \<open>\<^verbatim>\<open>data_strings(data, indent)\<close>: one quoted row per \<^verbatim>\<open>BYTESW\<close> bytes. A zero step makes
  \<^verbatim>\<open>range\<close> raise; a negative one gives no rows.\<close>

definition data_strings :: "byte list \<Rightarrow> string \<Rightarrow> string list dec" where
  "data_strings d indent =
     (\<lambda>s. if BYTESW s = 0 then (Inl ValueError, s)
          else (Inr (map (\<lambda>row. indent @ [CHR 0x22] @ data_string row @ [CHR 0x22])
                        (chunks (nat (BYTESW s)) d)), s))"

section \<open>Type decoders\<close>

definition NUMTYPE :: "int \<rightharpoonup> string" where
  "NUMTYPE = [0x7F \<mapsto> ''i32'', 0x7E \<mapsto> ''i64'', 0x7D \<mapsto> ''f32'', 0x7C \<mapsto> ''f64'']"

definition VECTYPE :: "int \<rightharpoonup> string" where
  "VECTYPE = [0x7B \<mapsto> ''v128'']"

definition REFTYPE :: "int \<rightharpoonup> string" where
  "REFTYPE = [0x70 \<mapsto> ''funcref'', 0x6F \<mapsto> ''externref'']"

definition VALTYPE :: "int \<rightharpoonup> string" where
  "VALTYPE = NUMTYPE ++ VECTYPE ++ REFTYPE"

definition FUNCTYPE :: "int \<rightharpoonup> string" where
  "FUNCTYPE = [0x60 \<mapsto> ''functype'']"

definition MUTABILITY :: "int \<rightharpoonup> string" where
  "MUTABILITY = [0 \<mapsto> ''const'', 1 \<mapsto> ''var'']"

definition IMPORT_MODE :: "int \<rightharpoonup> string" where
  "IMPORT_MODE = [0 \<mapsto> ''func'', 1 \<mapsto> ''table'', 2 \<mapsto> ''mem'', 3 \<mapsto> ''global'']"

definition EXPORT_MODE :: "int \<rightharpoonup> string" where
  "EXPORT_MODE = IMPORT_MODE"

text \<open>An optional name inside an f-string: \<^verbatim>\<open>None\<close> prints as \<^verbatim>\<open>None\<close>.\<close>

definition str_opt :: "string option \<Rightarrow> string" where
  "str_opt name = (case name of None \<Rightarrow> ''None'' | Some n \<Rightarrow> n)"

text \<open>\<^verbatim>\<open>get_valtype\<close> and \<^verbatim>\<open>get_reftype\<close> do not raise: the \<^verbatim>\<open>dict.get\<close> default is a
  placeholder text with the code in hexadecimal.\<close>

definition get_valtype :: "int \<Rightarrow> string" where
  "get_valtype code =
     (case VALTYPE code of Some n \<Rightarrow> n | None \<Rightarrow> ''(valtype:0x'' @ hex02 code @ '')'')"

definition get_reftype :: "int \<Rightarrow> string" where
  "get_reftype code =
     (case REFTYPE code of Some n \<Rightarrow> n | None \<Rightarrow> ''(reftype:0x'' @ hex02 code @ '')'')"

definition reference_type :: "string \<Rightarrow> unit dec" where
  "reference_type pfx =
     bind (rd leb128u) (\<lambda>code.
     let name = REFTYPE (val code) in
     bind (dprint (Some (dat code)) (pfx @ str_opt name)) (\<lambda>_.
     if name = None then raise (NotImplementedError (''unknown reftype: 0x'' @ hex02 (val code)))
     else return ()))"

definition value_type :: "string \<Rightarrow> unit dec" where
  "value_type pfx =
     bind (rd byte) (\<lambda>code.
     let name = VALTYPE (val code) in
     bind (dprint (Some (dat code)) (pfx @ str_opt name)) (\<lambda>_.
     if name = None then raise (NotImplementedError (''unknown valtype: 0x'' @ hex02 (val code)))
     else return ()))"

definition result_type :: "string \<Rightarrow> string \<Rightarrow> unit dec" where
  "result_type name pfx =
     bind (rd leb128u) (\<lambda>vsiz.
     let vlen = val vsiz in
     bind (dprint (Some (dat vsiz)) (pfx @ name @ ''['' @ str_int vlen @ '']'')) (\<lambda>_.
     for_each (py_range vlen) (\<lambda>_. value_type (pfx @ ''  ''))))"

text \<open>The message of the \<^verbatim>\<open>limits\<close> error is written \<^verbatim>\<open>f'unknown limits: 0x{mode}:02x'\<close>: the mode
  in decimal, then the text \<^verbatim>\<open>:02x\<close>.\<close>

definition limits :: "string \<Rightarrow> unit dec" where
  "limits pfx =
     bind (rd byte) (\<lambda>code.
     let mode = val code in
     bind (dprint (Some (dat code)) (pfx @ ''limits'')) (\<lambda>_.
     if mode \<ge> 2 then raise (NotImplementedError (''unknown limits: 0x'' @ str_int mode @ '':02x''))
     else
       bind (rd leb128u) (\<lambda>lmin.
       bind (dprint (Some (dat lmin)) (pfx @ ''  min = '' @ str_int (val lmin))) (\<lambda>_.
       if mode = 1 then
         bind (rd leb128u) (\<lambda>lmax.
         dprint (Some (dat lmax)) (pfx @ ''  max = '' @ str_int (val lmax)))
       else return ()))))"

definition mutability :: "string \<Rightarrow> unit dec" where
  "mutability pfx =
     bind (rd byte) (\<lambda>code.
     let mode = val code; name = MUTABILITY mode in
     bind (dprint (Some (dat code)) (pfx @ str_opt name)) (\<lambda>_.
     if name = None then raise (NotImplementedError (''unknown mutability: '' @ str_int mode))
     else return ()))"

definition read_valtype :: "String dec" where
  "read_valtype = bind (rd byte) (\<lambda>code. return \<lparr>val = get_valtype (val code), dat = dat code\<rparr>)"

definition read_reftype :: "String dec" where
  "read_reftype = bind (rd byte) (\<lambda>code. return \<lparr>val = get_reftype (val code), dat = dat code\<rparr>)"

section \<open>The opcode table\<close>

text \<open>
  \<^verbatim>\<open>DISASM\<close> is a list indexed by the first opcode byte. An entry is the empty list (no
  instruction), a pair of lists \<^verbatim>\<open>[operands, [mnemonic, ...]]\<close>, or, at \<^verbatim>\<open>0xFC\<close> and \<^verbatim>\<open>0xFD\<close>, a
  nested list indexed by the second opcode. An operand is an \<^verbatim>\<open>int\<close> (a byte that must
  follow) or a \<^verbatim>\<open>str\<close> naming an operand kind; the decoder also compares operands with a
  tuple of strings. Equality of these Python values is equality of the datatype.
\<close>

datatype operand = N int | S string | T "operand list"

datatype entry = Empty | Ins "operand list" "string list" | Plane "entry list"

text \<open>The nested list at \<^verbatim>\<open>DISASM[0xFC]\<close>.\<close>

definition DISASM_FC :: "entry list" where
  "DISASM_FC = [
     Ins [] [''i32.trunc_sat_f32_s''],
     Ins [] [''i32.trunc_sat_f32_u''],
     Ins [] [''i32.trunc_sat_f64_s''],
     Ins [] [''i32.trunc_sat_f64_u''],
     Ins [] [''i64.trunc_sat_f32_s''],
     Ins [] [''i64.trunc_sat_f32_u''],
     Ins [] [''i64.trunc_sat_f64_s''],
     Ins [] [''i64.trunc_sat_f64_u''],
     Ins [S ''eid'', N 0] [''memory.init'', ''eid''],
     Ins [S ''did''] [''data.drop'', ''did''],
     Ins [N 0, N 0] [''memory.copy''],
     Ins [N 0] [''memory.fill''],
     Ins [S ''eid'', S ''tid''] [''table.init'', ''eid'', ''tid''],
     Ins [S ''mid''] [''elem.drop'', ''mid''],
     Ins [S ''tid1'', S ''tid2''] [''table.copy'', ''tid1'', ''tid2''],
     Ins [S ''tid''] [''table.grow'', ''tid''],
     Ins [S ''tid''] [''table.size'', ''tid''],
     Ins [S ''tid''] [''table.fill'', ''tid''],
     Empty,
     Empty,
     Empty,
     Empty,
     Empty,
     Empty,
     Empty,
     Empty,
     Empty,
     Empty,
     Empty,
     Empty,
     Empty,
     Empty,
     Empty,
     Empty,
     Empty,
     Empty,
     Empty,
     Empty,
     Empty,
     Empty,
     Empty,
     Empty,
     Empty,
     Empty,
     Empty,
     Empty,
     Empty,
     Empty,
     Empty,
     Empty,
     Empty,
     Empty,
     Empty,
     Empty,
     Empty,
     Empty,
     Empty,
     Empty,
     Empty,
     Empty,
     Empty,
     Empty,
     Empty,
     Empty,
     Empty,
     Empty,
     Empty,
     Empty,
     Empty,
     Empty,
     Empty,
     Empty,
     Empty,
     Empty,
     Empty,
     Empty,
     Empty,
     Empty,
     Empty,
     Empty,
     Empty,
     Empty,
     Empty,
     Empty,
     Empty,
     Empty,
     Empty,
     Empty,
     Empty,
     Empty,
     Empty,
     Empty,
     Empty,
     Empty,
     Empty,
     Empty,
     Empty,
     Empty,
     Empty,
     Empty,
     Empty,
     Empty,
     Empty,
     Empty,
     Empty,
     Empty,
     Empty,
     Empty,
     Empty,
     Empty,
     Empty,
     Empty,
     Empty,
     Empty,
     Empty,
     Empty,
     Empty,
     Empty,
     Empty,
     Empty,
     Empty,
     Empty,
     Empty,
     Empty,
     Empty,
     Empty,
     Empty,
     Empty,
     Empty,
     Empty,
     Empty,
     Empty,
     Empty,
     Empty,
     Empty,
     Empty,
     Empty,
     Empty,
     Empty,
     Empty,
     Empty,
     Empty,
     Empty,
     Empty,
     Empty,
     Empty,
     Empty,
     Empty,
     Empty,
     Empty,
     Empty,
     Empty,
     Empty,
     Empty,
     Empty,
     Empty,
     Empty,
     Empty,
     Empty,
     Empty,
     Empty,
     Empty,
     Empty,
     Empty,
     Empty,
     Empty,
     Empty,
     Empty,
     Empty,
     Empty,
     Empty,
     Empty,
     Empty,
     Empty,
     Empty,
     Empty,
     Empty,
     Empty,
     Empty,
     Empty,
     Empty,
     Empty,
     Empty,
     Empty,
     Empty,
     Empty,
     Empty,
     Empty,
     Empty,
     Empty,
     Empty,
     Empty,
     Empty,
     Empty,
     Empty,
     Empty,
     Empty,
     Empty,
     Empty,
     Empty,
     Empty,
     Empty,
     Empty,
     Empty,
     Empty,
     Empty,
     Empty,
     Empty,
     Empty,
     Empty,
     Empty,
     Empty,
     Empty,
     Empty,
     Empty,
     Empty,
     Empty,
     Empty,
     Empty,
     Empty,
     Empty,
     Empty,
     Empty,
     Empty,
     Empty,
     Empty,
     Empty,
     Empty,
     Empty,
     Empty,
     Empty,
     Empty,
     Empty,
     Empty,
     Empty,
     Empty,
     Empty,
     Empty,
     Empty,
     Empty,
     Empty,
     Empty,
     Empty,
     Empty,
     Empty,
     Empty,
     Empty,
     Empty,
     Empty,
     Empty,
     Empty,
     Empty,
     Empty,
     Empty,
     Empty,
     Empty
   ]"

text \<open>The nested list at \<^verbatim>\<open>DISASM[0xFD]\<close>.\<close>

definition DISASM_FD :: "entry list" where
  "DISASM_FD = [
     Ins [S ''mao''] [''v128.load'', ''mao''],
     Ins [S ''mao''] [''v128.load8x8_s'', ''mao''],
     Ins [S ''mao''] [''v128.load8x8_u'', ''mao''],
     Ins [S ''mao''] [''v128.load16x4_s'', ''mao''],
     Ins [S ''mao''] [''v128.load16x4_u'', ''mao''],
     Ins [S ''mao''] [''v128.load32x2_s'', ''mao''],
     Ins [S ''mao''] [''v128.load32x2_u'', ''mao''],
     Ins [S ''mao''] [''v128.load8_splat'', ''mao''],
     Ins [S ''mao''] [''v128.load16_splat'', ''mao''],
     Ins [S ''mao''] [''v128.load32_splat'', ''mao''],
     Ins [S ''mao''] [''v128.load64_splat'', ''mao''],
     Ins [S ''mao''] [''v128.store'', ''mao''],
     Ins [S ''vb16''] [''v128.const'', ''vb16''],
     Ins [S ''vlt''] [''i8x16.shuffle'', ''vlt''],
     Ins [] [''i8x16.swizzle''],
     Ins [] [''i8x16.splat''],
     Ins [] [''i16x8.splat''],
     Ins [] [''i32x4.splat''],
     Ins [] [''i64x2.splat''],
     Ins [] [''f32x4.splat''],
     Ins [] [''f64x2.splat''],
     Ins [S ''vl''] [''i8x16.extract_lane_s'', ''vl''],
     Ins [S ''vl''] [''i8x16.extract_lane_u'', ''vl''],
     Ins [S ''vl''] [''i8x16.replace_lane'', ''vl''],
     Ins [S ''vl''] [''i16x8.extract_lane_s'', ''vl''],
     Ins [S ''vl''] [''i16x8.extract_lane_u'', ''vl''],
     Ins [S ''vl''] [''i16x8.replace_lane'', ''vl''],
     Ins [S ''vl''] [''i32x4.extract_lane'', ''vl''],
     Ins [S ''vl''] [''i32x4.replace_lane'', ''vl''],
     Ins [S ''vl''] [''i64x2.extract_lane'', ''vl''],
     Ins [S ''vl''] [''i64x2.replace_lane'', ''vl''],
     Ins [S ''vl''] [''f32x4.extract_lane'', ''vl''],
     Ins [S ''vl''] [''f32x4.replace_lane'', ''vl''],
     Ins [S ''vl''] [''f64x2.extract_lane'', ''vl''],
     Ins [S ''vl''] [''f64x2.replace_lane'', ''vl''],
     Ins [] [''i8x16.eq''],
     Ins [] [''i8x16.ne''],
     Ins [] [''i8x16.lt_s''],
     Ins [] [''i8x16.lt_u''],
     Ins [] [''i8x16.gt_s''],
     Ins [] [''i8x16.gt_u''],
     Ins [] [''i8x16.le_s''],
     Ins [] [''i8x16.le_u''],
     Ins [] [''i8x16.ge_s''],
     Ins [] [''i8x16.ge_u''],
     Ins [] [''i16x8.eq''],
     Ins [] [''i16x8.ne''],
     Ins [] [''i16x8.lt_s''],
     Ins [] [''i16x8.lt_u''],
     Ins [] [''i16x8.gt_s''],
     Ins [] [''i16x8.gt_u''],
     Ins [] [''i16x8.le_s''],
     Ins [] [''i16x8.le_u''],
     Ins [] [''i16x8.ge_s''],
     Ins [] [''i16x8.ge_u''],
     Ins [] [''i32x4.eq''],
     Ins [] [''i32x4.ne''],
     Ins [] [''i32x4.lt_s''],
     Ins [] [''i32x4.lt_u''],
     Ins [] [''i32x4.gt_s''],
     Ins [] [''i32x4.gt_u''],
     Ins [] [''i32x4.le_s''],
     Ins [] [''i32x4.le_u''],
     Ins [] [''i32x4.ge_s''],
     Ins [] [''i32x4.ge_u''],
     Ins [] [''f32x4.eq''],
     Ins [] [''f32x4.ne''],
     Ins [] [''f32x4.lt''],
     Ins [] [''f32x4.gt''],
     Ins [] [''f32x4.le''],
     Ins [] [''f32x4.ge''],
     Ins [] [''f64x2.eq''],
     Ins [] [''f64x2.ne''],
     Ins [] [''f64x2.lt''],
     Ins [] [''f64x2.gt''],
     Ins [] [''f64x2.le''],
     Ins [] [''f64x2.ge''],
     Ins [] [''v128.not''],
     Ins [] [''v128.and''],
     Ins [] [''v128.andnot''],
     Ins [] [''v128.or''],
     Ins [] [''v128.xor''],
     Ins [] [''v128.bitselect''],
     Ins [] [''v128.any_true''],
     Ins [S ''mao'', S ''vl''] [''v128.load8_lane'', ''mao'', ''vl''],
     Ins [S ''mao'', S ''vl''] [''v128.load16_lane'', ''mao'', ''vl''],
     Ins [S ''mao'', S ''vl''] [''v128.load32_lane'', ''mao'', ''vl''],
     Ins [S ''mao'', S ''vl''] [''v128.load64_lane'', ''mao'', ''vl''],
     Ins [S ''mao'', S ''vl''] [''v128.store8_lane'', ''mao'', ''vl''],
     Ins [S ''mao'', S ''vl''] [''v128.store16_lane'', ''mao'', ''vl''],
     Ins [S ''mao'', S ''vl''] [''v128.store32_lane'', ''mao'', ''vl''],
     Ins [S ''mao'', S ''vl''] [''v128.store64_lane'', ''mao'', ''vl''],
     Ins [S ''mao''] [''v128.load32_zero'', ''mao''],
     Ins [S ''mao''] [''v128.load64_zero'', ''mao''],
     Ins [] [''f32x4.demote_f64x2_zero''],
     Ins [] [''f64x2.promote_low_f32x4''],
     Ins [] [''i8x16.abs''],
     Ins [] [''i8x16.neg''],
     Ins [] [''i8x16.popcnt''],
     Ins [] [''i8x16.all_true''],
     Ins [] [''i8x16.bitmask''],
     Ins [] [''i8x16.narrow_i16x8_s''],
     Ins [] [''i8x16.narrow_i16x8_u''],
     Ins [] [''f32x4.ceil''],
     Ins [] [''f32x4.floor''],
     Ins [] [''f32x4.trunc''],
     Ins [] [''f32x4.nearest''],
     Ins [] [''i8x16.shl''],
     Ins [] [''i8x16.shr_s''],
     Ins [] [''i8x16.shr_u''],
     Ins [] [''i8x16.add''],
     Ins [] [''i8x16.add_sat_s''],
     Ins [] [''i8x16.add_sat_u''],
     Ins [] [''i8x16.sub''],
     Ins [] [''i8x16.sub_sat_s''],
     Ins [] [''i8x16.sub_sat_u''],
     Ins [] [''f64x2.ceil''],
     Ins [] [''f64x2.floor''],
     Ins [] [''i8x16.min_s''],
     Ins [] [''i8x16.min_u''],
     Ins [] [''i8x16.max_s''],
     Ins [] [''i8x16.max_u''],
     Ins [] [''f64x2.trunc''],
     Ins [] [''i8x16.avr_u''],
     Ins [] [''i16x8.extadd_pairwise_i8x16_s''],
     Ins [] [''i16x8.extadd_pairwise_i8x16_u''],
     Ins [] [''i32x4.extadd_pairwise_i16x8_s''],
     Ins [] [''i32x4.extadd_pairwise_i16x8_u''],
     Ins [] [''i16x8.abs''],
     Ins [] [''i16x8.neg''],
     Ins [] [''i16x8.q15mulr_sat_s''],
     Ins [] [''i16x8.all_true''],
     Ins [] [''i16x8.bitmask''],
     Ins [] [''i16x8.narrow_i32x4_s''],
     Ins [] [''i16x8.narrow_i32x4_u''],
     Ins [] [''i16x8.extend_low_i8x16_s''],
     Ins [] [''i16x8.extend_high_i8x16_s''],
     Ins [] [''i16x8.extend_low_i8x16_u''],
     Ins [] [''i16x8.extend_high_i8x16_u''],
     Ins [] [''i16x8.shl''],
     Ins [] [''i16x8.shr_s''],
     Ins [] [''i16x8.shr_u''],
     Ins [] [''i16x8.add''],
     Ins [] [''i16x8.add_sat_s''],
     Ins [] [''i16x8.add_sat_u''],
     Ins [] [''i16x8.sub''],
     Ins [] [''i16x8.sub_sat_s''],
     Ins [] [''i16x8.sub_sat_u''],
     Ins [] [''f64x2.nearest''],
     Ins [] [''i16x8.mul''],
     Ins [] [''i16x8.min_s''],
     Ins [] [''i16x8.min_u''],
     Ins [] [''i16x8.max_s''],
     Ins [] [''i16x8.max_u''],
     Empty,
     Ins [] [''i16x8.avr_u''],
     Ins [] [''i16x8.extmul_low_i8x16_s''],
     Ins [] [''i16x8.extmul_high_i8x16_s''],
     Ins [] [''i16x8.extmul_low_i8x16_u''],
     Ins [] [''i16x8.extmul_high_i8x16_u''],
     Ins [] [''i32x4.abs''],
     Ins [] [''i32x4.neg''],
     Empty,
     Ins [] [''i32x4.all_true''],
     Ins [] [''i32x4.bitmask''],
     Ins [] [''i32x4.narrow_i32x4_s''],
     Ins [] [''i32x4.narrow_i32x4_u''],
     Ins [] [''i32x4.extend_low_i16x8_s''],
     Ins [] [''i32x4.extend_high_i16x8_s''],
     Ins [] [''i32x4.extend_low_i16x8_u''],
     Ins [] [''i32x4.extend_high_i16x8_u''],
     Ins [] [''i32x4.shl''],
     Ins [] [''i32x4.shr_s''],
     Ins [] [''i32x4.shr_u''],
     Ins [] [''i32x4.add''],
     Empty,
     Empty,
     Ins [] [''i32x4.sub''],
     Empty,
     Empty,
     Empty,
     Ins [] [''i32x4.mul''],
     Ins [] [''i32x4.min_s''],
     Ins [] [''i32x4.min_u''],
     Ins [] [''i32x4.max_s''],
     Ins [] [''i32x4.max_u''],
     Ins [] [''i32x4.dot_i16x8_s''],
     Empty,
     Ins [] [''i32x4.extmul_low_i16x8_s''],
     Ins [] [''i32x4.extmul_high_i16x8_s''],
     Ins [] [''i32x4.extmul_low_i16x8_u''],
     Ins [] [''i32x4.extmul_high_i16x8_u''],
     Ins [] [''i64x2.abs''],
     Ins [] [''i64x2.neg''],
     Empty,
     Ins [] [''i64x2.all_true''],
     Ins [] [''i64x2.bitmask''],
     Empty,
     Empty,
     Ins [] [''i64x2.extend_low_i32x4_s''],
     Ins [] [''i64x2.extend_high_i32x4_s''],
     Ins [] [''i64x2.extend_low_i32x4_u''],
     Ins [] [''i64x2.extend_high_i32x4_u''],
     Ins [] [''i64x2.shl''],
     Ins [] [''i64x2.shr_s''],
     Ins [] [''i64x2.shr_u''],
     Ins [] [''i64x2.add''],
     Empty,
     Empty,
     Ins [] [''i64x2.sub''],
     Empty,
     Empty,
     Empty,
     Ins [] [''i64x2.mul''],
     Ins [] [''i64x2.eq''],
     Ins [] [''i64x2.ne''],
     Ins [] [''i64x2.lt_s''],
     Ins [] [''i64x2.gt_s''],
     Ins [] [''i64x2.le_s''],
     Ins [] [''i64x2.ge_s''],
     Ins [] [''i64x2.extmul_low_i8x16_s''],
     Ins [] [''i64x2.extmul_high_i8x16_s''],
     Ins [] [''i64x2.extmul_low_i8x16_u''],
     Ins [] [''i64x2.extmul_high_i8x16_u''],
     Ins [] [''f32x4.abs''],
     Ins [] [''f32x4.neg''],
     Empty,
     Ins [] [''f32x4.sqrt''],
     Ins [] [''f32x4.add''],
     Ins [] [''f32x4.sub''],
     Ins [] [''f32x4.mul''],
     Ins [] [''f32x4.div''],
     Ins [] [''f32x4.min''],
     Ins [] [''f32x4.max''],
     Ins [] [''f32x4.pmin''],
     Ins [] [''f32x4.pmax''],
     Ins [] [''f64x2.abs''],
     Ins [] [''f64x2.neg''],
     Empty,
     Ins [] [''f64x2.sqrt''],
     Ins [] [''f64x2.add''],
     Ins [] [''f64x2.sub''],
     Ins [] [''f64x2.mul''],
     Ins [] [''f64x2.div''],
     Ins [] [''f64x2.min''],
     Ins [] [''f64x2.max''],
     Ins [] [''f64x2.pmin''],
     Ins [] [''f64x2.pmax''],
     Ins [] [''i32x4.trunc_sat_f32x4_s''],
     Ins [] [''i32x4.trunc_sat_f32x4_u''],
     Ins [] [''f32x4.convert_i32x4_s''],
     Ins [] [''f32x4.convert_i32x4_u''],
     Ins [] [''i32x4.trunc_sat_f64x2_s_zero''],
     Ins [] [''i32x4.trunc_sat_f64x2_u_zero''],
     Ins [] [''f64x2.convert_low_i32x4_s''],
     Ins [] [''f64x2.convert_low_i32x4_u'']
   ]"

definition DISASM :: "entry list" where
  "DISASM = [
     Ins [] [''unreachable''],
     Ins [] [''nop''],
     Ins [S ''bt''] [''block'', ''bt''],
     Ins [S ''bt''] [''loop'', ''bt''],
     Ins [S ''bt''] [''if'', ''bt''],
     Ins [] [''else''],
     Empty,
     Empty,
     Empty,
     Empty,
     Empty,
     Ins [] [''end''],
     Ins [S ''lid''] [''br'', ''lid''],
     Ins [S ''lid''] [''br_if'', ''lid''],
     Ins [S ''lid+''] [''br_table'', ''lid+''],
     Ins [] [''return''],
     Ins [S ''fid''] [''call'', ''fid''],
     Ins [S ''xid'', S ''tid''] [''call_indirect'', ''xid'', ''tid''],
     Empty,
     Empty,
     Empty,
     Empty,
     Empty,
     Empty,
     Empty,
     Empty,
     Ins [] [''drop''],
     Ins [] [''select''],
     Ins [S ''t+''] [''select'', ''t+''],
     Empty,
     Empty,
     Empty,
     Ins [S ''lid''] [''local.get'', ''lid''],
     Ins [S ''lid''] [''local.set'', ''lid''],
     Ins [S ''lid''] [''local.tee'', ''lid''],
     Ins [S ''gid''] [''global.get'', ''gid''],
     Ins [S ''gid''] [''global.set'', ''gid''],
     Ins [S ''tid''] [''table.get'', ''tid''],
     Ins [S ''tid''] [''table.set'', ''tid''],
     Empty,
     Ins [S ''mao''] [''i32.load'', ''mao''],
     Ins [S ''mao''] [''i64.load'', ''mao''],
     Ins [S ''mao''] [''f32.load'', ''mao''],
     Ins [S ''mao''] [''f64.load'', ''mao''],
     Ins [S ''mao''] [''i32.load8_s'', ''mao''],
     Ins [S ''mao''] [''i32.load8_u'', ''mao''],
     Ins [S ''mao''] [''i32.load16_s'', ''mao''],
     Ins [S ''mao''] [''i32.load16_u'', ''mao''],
     Ins [S ''mao''] [''i64.load8_s'', ''mao''],
     Ins [S ''mao''] [''i64.load8_u'', ''mao''],
     Ins [S ''mao''] [''i64.load16_s'', ''mao''],
     Ins [S ''mao''] [''i64.load16_u'', ''mao''],
     Ins [S ''mao''] [''i64.load32_s'', ''mao''],
     Ins [S ''mao''] [''i64.load32_u'', ''mao''],
     Ins [S ''mao''] [''i32.store'', ''mao''],
     Ins [S ''mao''] [''i64.store'', ''mao''],
     Ins [S ''mao''] [''f32.store'', ''mao''],
     Ins [S ''mao''] [''f64.store'', ''mao''],
     Ins [S ''mao''] [''i32.store8'', ''mao''],
     Ins [S ''mao''] [''i32.store16'', ''mao''],
     Ins [S ''mao''] [''i64.store8'', ''mao''],
     Ins [S ''mao''] [''i64.store16'', ''mao''],
     Ins [S ''mao''] [''i64.store32'', ''mao''],
     Ins [N 0] [''memory.size''],
     Ins [N 0] [''memory.grow''],
     Ins [S ''i32''] [''i32.const'', ''i32''],
     Ins [S ''i64''] [''i64.const'', ''i64''],
     Ins [S ''f32''] [''f32.const'', ''f32''],
     Ins [S ''f64''] [''f64.const'', ''f64''],
     Ins [] [''i32.eqz''],
     Ins [] [''i32.eq''],
     Ins [] [''i32.ne''],
     Ins [] [''i32.lt_s''],
     Ins [] [''i32.lt_u''],
     Ins [] [''i32.gt_s''],
     Ins [] [''i32.gt_u''],
     Ins [] [''i32.le_s''],
     Ins [] [''i32.le_u''],
     Ins [] [''i32.ge_s''],
     Ins [] [''i32.ge_u''],
     Ins [] [''i64.eqz''],
     Ins [] [''i64.eq''],
     Ins [] [''i64.ne''],
     Ins [] [''i64.lt_s''],
     Ins [] [''i64.lt_u''],
     Ins [] [''i64.gt_s''],
     Ins [] [''i64.gt_u''],
     Ins [] [''i64.le_s''],
     Ins [] [''i64.le_u''],
     Ins [] [''i64.ge_s''],
     Ins [] [''i64.ge_u''],
     Ins [] [''f32.eq''],
     Ins [] [''f32.ne''],
     Ins [] [''f32.lt''],
     Ins [] [''f32.gt''],
     Ins [] [''f32.le''],
     Ins [] [''f32.ge''],
     Ins [] [''f64.eq''],
     Ins [] [''f64.ne''],
     Ins [] [''f64.lt''],
     Ins [] [''f64.gt''],
     Ins [] [''f64.le''],
     Ins [] [''f64.ge''],
     Ins [] [''i32.clz''],
     Ins [] [''i32.ctz''],
     Ins [] [''i32.popcnt''],
     Ins [] [''i32.add''],
     Ins [] [''i32.sub''],
     Ins [] [''i32.mul''],
     Ins [] [''i32.div_s''],
     Ins [] [''i32.div_u''],
     Ins [] [''i32.rem_s''],
     Ins [] [''i32.rem_u''],
     Ins [] [''i32.and''],
     Ins [] [''i32.or''],
     Ins [] [''i32.xor''],
     Ins [] [''i32.shl''],
     Ins [] [''i32.shr_s''],
     Ins [] [''i32.shr_u''],
     Ins [] [''i32.rotl''],
     Ins [] [''i32.rotr''],
     Ins [] [''i64.clz''],
     Ins [] [''i64.ctz''],
     Ins [] [''i64.popcnt''],
     Ins [] [''i64.add''],
     Ins [] [''i64.sub''],
     Ins [] [''i64.mul''],
     Ins [] [''i64.div_s''],
     Ins [] [''i64.div_u''],
     Ins [] [''i64.rem_s''],
     Ins [] [''i64.rem_u''],
     Ins [] [''i64.and''],
     Ins [] [''i64.or''],
     Ins [] [''i64.xor''],
     Ins [] [''i64.shl''],
     Ins [] [''i64.shr_s''],
     Ins [] [''i64.shr_u''],
     Ins [] [''i64.rotl''],
     Ins [] [''i64.rotr''],
     Ins [] [''f32.abs''],
     Ins [] [''f32.neg''],
     Ins [] [''f32.ceil''],
     Ins [] [''f32.floor''],
     Ins [] [''f32.trunc''],
     Ins [] [''f32.nearest''],
     Ins [] [''f32.sqrt''],
     Ins [] [''f32.add''],
     Ins [] [''f32.sub''],
     Ins [] [''f32.mul''],
     Ins [] [''f32.div''],
     Ins [] [''f32.min''],
     Ins [] [''f32.max''],
     Ins [] [''f32.copysign''],
     Ins [] [''f64.abs''],
     Ins [] [''f64.neg''],
     Ins [] [''f64.ceil''],
     Ins [] [''f64.floor''],
     Ins [] [''f64.trunc''],
     Ins [] [''f64.nearest''],
     Ins [] [''f64.sqrt''],
     Ins [] [''f64.add''],
     Ins [] [''f64.sub''],
     Ins [] [''f64.mul''],
     Ins [] [''f64.div''],
     Ins [] [''f64.min''],
     Ins [] [''f64.max''],
     Ins [] [''f64.copysign''],
     Ins [] [''i32.wrap''],
     Ins [] [''i32.trunc_f32_s''],
     Ins [] [''i32.trunc_f32_u''],
     Ins [] [''i32.trunc_f64_s''],
     Ins [] [''i32.trunc_f64_u''],
     Ins [] [''i64.extend_i32_s''],
     Ins [] [''i64.extend_i32_u''],
     Ins [] [''i64.trunc_f32_s''],
     Ins [] [''i64.trunc_f32_u''],
     Ins [] [''i64.trunc_f64_s''],
     Ins [] [''i64.trunc_f64_u''],
     Ins [] [''f32.convert_i32_s''],
     Ins [] [''f32.convert_i32_u''],
     Ins [] [''f32.convert_i64_s''],
     Ins [] [''f32.convert_i64_u''],
     Ins [] [''f32.demote_f64''],
     Ins [] [''f64.convert_i32_s''],
     Ins [] [''f64.convert_i32_u''],
     Ins [] [''f64.convert_i64_s''],
     Ins [] [''f64.convert_i64_u''],
     Ins [] [''f64.promote_f32''],
     Ins [] [''i32.reinterpret_f32''],
     Ins [] [''i64.reinterpret_f64''],
     Ins [] [''f32.reinterpret_i32''],
     Ins [] [''f64.reinterpret_i64''],
     Ins [] [''i32.extend8_s''],
     Ins [] [''i32.extend16_s''],
     Ins [] [''i64.extend8_s''],
     Ins [] [''i64.extend16_s''],
     Ins [] [''i64.extend32_s''],
     Empty,
     Empty,
     Empty,
     Empty,
     Empty,
     Empty,
     Empty,
     Empty,
     Empty,
     Empty,
     Empty,
     Ins [S ''ref''] [''ref.null'', ''ref''],
     Ins [] [''ref.is_null''],
     Ins [S ''fid''] [''ref.func'', ''fid''],
     Empty,
     Empty,
     Empty,
     Empty,
     Empty,
     Empty,
     Empty,
     Empty,
     Empty,
     Empty,
     Empty,
     Empty,
     Empty,
     Empty,
     Empty,
     Empty,
     Empty,
     Empty,
     Empty,
     Empty,
     Empty,
     Empty,
     Empty,
     Empty,
     Empty,
     Empty,
     Empty,
     Empty,
     Empty,
     Empty,
     Empty,
     Empty,
     Empty,
     Empty,
     Empty,
     Empty,
     Empty,
     Empty,
     Empty,
     Empty,
     Empty,
     Plane DISASM_FC,
     Plane DISASM_FD,
     Empty,
     Empty
   ]"

section \<open>Instruction decoder\<close>

text \<open>Indexing a list, \<^verbatim>\<open>xs[i]\<close>: \<^verbatim>\<open>IndexError\<close> beyond either end, negative indices count from
  the end.\<close>

definition index :: "'a list \<Rightarrow> int \<Rightarrow> 'a dec" where
  "index xs i =
     (if 0 \<le> i \<and> i < int (length xs) then return (xs ! nat i)
      else if i < 0 \<and> - i \<le> int (length xs) then return (xs ! nat (int (length xs) + i))
      else raise IndexError)"

text \<open>\<^verbatim>\<open>ins[code2]\<close> on the entry found under \<^verbatim>\<open>0xFC\<close> or \<^verbatim>\<open>0xFD\<close>. Both are nested lists; the
  other cases are not reached.\<close>

definition subscript :: "entry \<Rightarrow> int \<Rightarrow> entry dec" where
  "subscript ins i =
     (case ins of Plane p \<Rightarrow> index p i | Empty \<Rightarrow> raise IndexError | Ins ops asm \<Rightarrow> raise TypeError)"

text \<open>An operand inside an f-string; a \<^verbatim>\<open>str\<close> prints as itself.\<close>

fun repr_operand :: "operand \<Rightarrow> string" where
  "repr_operand (N n) = str_int n"
| "repr_operand (S s) = [CHR 0x27] @ s @ [CHR 0x27]"
| "repr_operand (T xs) =
     ''('' @ join '', '' (map repr_operand xs) @ (if length xs = 1 then '','' else '''') @ '')''"

definition str_operand :: "operand \<Rightarrow> string" where
  "str_operand op = (case op of S s \<Rightarrow> s | _ \<Rightarrow> repr_operand op)"

text \<open>\<^verbatim>\<open>' '.join(f'0x{b:02x}' for b in data)\<close>\<close>

definition hex_bytes :: "byte list \<Rightarrow> string" where
  "hex_bytes d = join '' '' (map (\<lambda>b. ''0x'' @ hex02 (uint b)) d)"

text \<open>The body of the loop \<^verbatim>\<open>for op in ins[0]\<close>: the chain of tests on the operand, in the
  order of the source; the test for the sixteen-byte operands is written
  \<^verbatim>\<open>op == ('vb16', 'vlt')\<close>.\<close>

definition operand_step :: "pylib \<Rightarrow> string \<Rightarrow> string \<Rightarrow> operand \<Rightarrow> unit dec" where
  "operand_step L indent asm0 op =
     (case op of
        N n \<Rightarrow>
          bind (rd byte) (\<lambda>sfx.
          if n = val sfx then dprint (Some (dat sfx)) (indent @ ''(code:0x'' @ hex02 n @ '')'')
          else raise (NotImplementedError
                 (''unknown instruction code: '' @ asm0 @ '' -> 0x'' @ hex02 n)))
      | _ \<Rightarrow>
          if op \<in> {S ''i32'', S ''i64'',
                    S ''did'', S ''eid'', S ''fid'', S ''gid'', S ''lid'', S ''mid'',
                    S ''tid'', S ''tid1'', S ''tid2'',
                    S ''xid''} then
            bind (rd leb128u) (\<lambda>code.
            dprint (Some (dat code)) (indent @ str_int (val code)))
          else if op = S ''f32'' then
            bind (rd (load 4)) (\<lambda>code.
            dprint (Some code) (indent @ unpack_f L (data code)))
          else if op = S ''f64'' then
            bind (rd (load 8)) (\<lambda>code.
            dprint (Some code) (indent @ unpack_d L (data code)))
          else if op = T [S ''vb16'', S ''vlt''] then
            bind (rd (load 16)) (\<lambda>code.
            dprint (Some code) (indent @ hex_bytes (data code)))
          else if op = S ''vl'' then
            bind (rd byte) (\<lambda>code.
            dprint (Some (dat code)) (indent @ ''lane = 0x'' @ hex02 (val code)))
          else if op = S ''mao'' then
            bind (rd leb128u) (\<lambda>code.
            bind (dprint (Some (dat code)) (indent @ ''align = '' @ str_int (val code))) (\<lambda>_.
            bind (rd leb128u) (\<lambda>code.
            dprint (Some (dat code)) (indent @ ''offset = '' @ str_int (val code)))))
          else if op = S ''bt'' then
            bind (rd leb128) (\<lambda>leb.
            let cbt = uint (data leb ! 0) in
            bind (if cbt AND 0x40 \<noteq> 0
                  then return (if cbt = 0x40 then ''(empty)'' else get_valtype cbt)
                  else (case decode_leb128s (data leb) of
                          Inl e \<Rightarrow> raise e
                        | Inr v \<Rightarrow> return (str_int v))) (\<lambda>sbt.
            dprint (Some leb) (indent @ sbt)))
          else if op = S ''t+'' then
            bind (rd leb128u) (\<lambda>leb.
            let count = val leb in
            bind (dprint (Some (dat leb)) (indent @ ''(types='' @ str_int count @ '')'')) (\<lambda>_.
            for_each (py_range count) (\<lambda>_.
              bind read_valtype (\<lambda>cvt.
              dprint (Some (dat cvt)) (indent @ val cvt)))))
          else if op = S ''lid+'' then
            bind (rd leb128u) (\<lambda>leb.
            let count = val leb in
            bind (dprint (Some (dat leb)) (indent @ ''(types='' @ str_int count @ '')'')) (\<lambda>_.
            for_each (py_range count) (\<lambda>_.
              bind (rd leb128u) (\<lambda>lid.
              dprint (Some (dat lid)) (indent @ object_str L lid)))))
          else if op = S ''ref'' then
            bind read_reftype (\<lambda>crt.
            dprint (Some (dat crt)) (indent @ val crt))
          else raise (NotImplementedError (asm0 @ '' -> '' @ str_operand op)))"

text \<open>\<^verbatim>\<open>instruction\<close>: the opcode, one byte or a prefix byte and a LEB128u; the table entry;
  the mnemonic line over the opcode bytes; the operands; the mnemonic is returned. A
  nested list that was not indexed is not reached.\<close>

definition instruction :: "pylib \<Rightarrow> int \<Rightarrow> int \<Rightarrow> int \<Rightarrow> string dec" where
  "instruction L indent_base indent_level indent_step =
     bind get_rpos (\<lambda>rp.
     bind (rd byte) (\<lambda>scode1.
     let code1 = val scode1 in
     bind (index DISASM code1) (\<lambda>ins.
     bind (if code1 \<in> {0xFC, 0xFD}
           then bind (rd leb128u) (\<lambda>scode2. subscript ins (val scode2))
           else return ins) (\<lambda>ins.
     bind (rd (reload rp)) (\<lambda>d.
     case ins of
       Empty \<Rightarrow> raise (NotImplementedError (''unknown instruction: '' @ hex_bytes (data d)))
     | Plane p \<Rightarrow> raise TypeError
     | Ins ops asm \<Rightarrow>
         (let level = (if asm ! 0 \<in> {''else'', ''end''} then max 0 (indent_level - 1)
                       else indent_level);
              indent_depth = (indent_base + level) * indent_step;
              indent = replicate (nat indent_depth) CHR '' ''
          in bind (dprint (Some d) (indent @ asm ! 0)) (\<lambda>_.
             bind (for_each ops (operand_step L (indent @ ''  --> '') (asm ! 0))) (\<lambda>_.
             return (asm ! 0)))))))))"

section \<open>Expression walker\<close>

text \<open>
  \<^verbatim>\<open>expression\<close> is a \<^verbatim>\<open>while\<close> loop that calls itself for the body of \<^verbatim>\<open>block\<close>, \<^verbatim>\<open>loop\<close> and
  \<^verbatim>\<open>if\<close>. Nothing in its text bounds the iterations, so the model has a result only where
  the walk stops: \<open>None\<close> stands for a walk that does not return.
\<close>

partial_function (option) expression ::
  "pylib \<Rightarrow> int \<Rightarrow> int \<Rightarrow> int \<Rightarrow> state \<Rightarrow> ((error + unit) \<times> state) option" where
  "expression L indent_base indent_level indent_step s =
     (if remain (stream s) > 0 then
        (case instruction L indent_base indent_level indent_step s of
           (Inl e, s') \<Rightarrow> Some (Inl e, s')
         | (Inr asm, s') \<Rightarrow>
             if asm = ''end'' then Some (Inr (), s')
             else if asm \<in> {''block'', ''loop'', ''if''} then
               Option.bind (expression L indent_base (indent_level + 1) indent_step s')
                 (\<lambda>r. case r of
                        (Inl e, s'') \<Rightarrow> Some (Inl e, s'')
                      | (Inr u, s'') \<Rightarrow> expression L indent_base indent_level indent_step s'')
             else expression L indent_base indent_level indent_step s')
      else Some (Inr (), s))"

declare expression.simps [code]

section \<open>Section decoders\<close>

text \<open>Decoders that walk expressions inherit the possibility of not returning.\<close>

type_synonym 'a pdec = "state \<Rightarrow> ((error + 'a) \<times> state) option"

definition lift :: "'a dec \<Rightarrow> 'a pdec" where
  "lift m = (\<lambda>s. Some (m s))"

definition pbind :: "'a pdec \<Rightarrow> ('a \<Rightarrow> 'b pdec) \<Rightarrow> 'b pdec" where
  "pbind m f =
     (\<lambda>s. case m s of
            None \<Rightarrow> None
          | Some (Inl e, s') \<Rightarrow> Some (Inl e, s')
          | Some (Inr x, s') \<Rightarrow> f x s')"

primrec pfor_each :: "'a list \<Rightarrow> ('a \<Rightarrow> unit pdec) \<Rightarrow> unit pdec" where
  "pfor_each [] body = lift (return ())"
| "pfor_each (x # xs) body = pbind (body x) (\<lambda>_. pfor_each xs body)"

text \<open>A decoder run on another cursor (the payload of a section, the body of a function);
  the caller's cursor is untouched.\<close>

definition on_stream :: "ReadData \<Rightarrow> 'a pdec \<Rightarrow> 'a pdec" where
  "on_stream sub m =
     (\<lambda>s. case m (s\<lparr>stream := sub\<rparr>) of
            None \<Rightarrow> None
          | Some (r, s') \<Rightarrow> Some (r, s'\<lparr>stream := stream s\<rparr>))"

text \<open>\<^verbatim>\<open>stream.read(n)\<close> as a step of a decoder: it cannot fail.\<close>

definition rd_read :: "nat \<Rightarrow> ReadData dec" where
  "rd_read n = rd (\<lambda>c. case read n c of (d, c') \<Rightarrow> (Inr d, c'))"

definition section_remain :: "unit dec" where
  "section_remain =
     bind get_remain (\<lambda>n.
     bind (rd (load n)) (\<lambda>rest.
     if length (data rest) \<noteq> 0 then
       bind (dprint None (''unknown data: size = '' @ str_int (int (length (data rest))))) (\<lambda>_.
       bind (data_strings (data rest) '''') (\<lambda>rows.
       dprints (Some rest) rows))
     else return ()))"

definition custom_section :: "pylib \<Rightarrow> unit dec" where
  "custom_section L =
     bind (rd (utf8 L)) (\<lambda>name.
     bind (dprint (Some (dat name)) (''name = '' @ [CHR 0x22] @ val name @ [CHR 0x22])) (\<lambda>_.
     bind get_remain (\<lambda>n.
     bind (rd (load n)) (\<lambda>payload.
     bind (data_strings (data payload) '''') (\<lambda>rows.
     dprints (Some payload) rows)))))"

definition type_section :: "unit dec" where
  "type_section =
     (let indent = replicate 2 CHR '' '' in
      bind (rd leb128u) (\<lambda>vsiz.
      let vlen = val vsiz in
      bind (dprint (Some (dat vsiz)) (''functype count = '' @ str_int vlen)) (\<lambda>_.
      bind (for_each (py_range vlen) (\<lambda>typeidx.
        bind (dprint None (''typeidx['' @ str_int (int typeidx) @ '']'')) (\<lambda>_.
        bind (rd byte) (\<lambda>code.
        case FUNCTYPE (val code) of
          None \<Rightarrow> raise (NotImplementedError (''unknown code: 0x'' @ hex02 (val code)))
        | Some name \<Rightarrow>
            bind (dprint (Some (dat code)) (indent @ name)) (\<lambda>_.
            bind (result_type ''param'' indent) (\<lambda>_.
            result_type ''result'' indent)))))) (\<lambda>_.
      section_remain))))"

definition import_section :: "pylib \<Rightarrow> unit dec" where
  "import_section L =
     (let indent = replicate 2 CHR '' ''; nindent = replicate 4 CHR '' '' in
      bind (rd leb128u) (\<lambda>vsiz.
      let vlen = val vsiz in
      bind (dprint (Some (dat vsiz)) (''import count = '' @ str_int vlen)) (\<lambda>_.
      bind (for_each (py_range vlen) (\<lambda>idx.
        bind (dprint None (''import['' @ str_int (int idx) @ '']'')) (\<lambda>_.
        bind (rd (utf8 L)) (\<lambda>modname.
        bind (dprint (Some (dat modname))
               (indent @ ''module = '' @ [CHR 0x22] @ val modname @ [CHR 0x22])) (\<lambda>_.
        bind (rd (utf8 L)) (\<lambda>name.
        bind (dprint (Some (dat name))
               (indent @ ''name = '' @ [CHR 0x22] @ val name @ [CHR 0x22])) (\<lambda>_.
        bind (rd byte) (\<lambda>imp.
        let mode = val imp; mnam = IMPORT_MODE mode in
        bind (dprint (Some (dat imp)) (indent @ str_opt mnam)) (\<lambda>_.
        if mode = 0 then
          bind (rd leb128u) (\<lambda>typeidx.
          dprint (Some (dat typeidx)) (nindent @ ''typeidx = '' @ str_int (val typeidx)))
        else if mode = 1 then
          bind (reference_type nindent) (\<lambda>_. limits nindent)
        else if mode = 2 then
          limits nindent
        else if mode = 3 then
          bind (value_type nindent) (\<lambda>_. mutability nindent)
        else raise (NotImplementedError (''unknown import section: '' @ str_int mode)))))))))))
        (\<lambda>_.
      section_remain))))"

definition function_section :: "unit dec" where
  "function_section =
     (let indent = replicate 2 CHR '' '' in
      bind (rd leb128u) (\<lambda>vsiz.
      let vlen = val vsiz in
      bind (dprint (Some (dat vsiz)) (''typeidx count = '' @ str_int vlen)) (\<lambda>_.
      bind (for_each (py_range vlen) (\<lambda>idx.
        bind (rd leb128u) (\<lambda>code.
        dprint (Some (dat code))
          (indent @ ''typeidx['' @ str_int (int idx) @ ''] = '' @ str_int (val code))))) (\<lambda>_.
      section_remain))))"

definition table_section :: "unit dec" where
  "table_section =
     (let indent = replicate 2 CHR '' '' in
      bind (rd leb128u) (\<lambda>vsiz.
      let vlen = val vsiz in
      bind (dprint (Some (dat vsiz)) (''table count = '' @ str_int vlen)) (\<lambda>_.
      bind (for_each (py_range vlen) (\<lambda>idx.
        bind (dprint None (''table['' @ str_int (int idx) @ '']'')) (\<lambda>_.
        bind (reference_type indent) (\<lambda>_.
        limits indent)))) (\<lambda>_.
      section_remain))))"

definition memory_section :: "unit dec" where
  "memory_section =
     (let indent = replicate 2 CHR '' '' in
      bind (rd leb128u) (\<lambda>vsiz.
      let vlen = val vsiz in
      bind (dprint (Some (dat vsiz)) (''memtype count = '' @ str_int vlen)) (\<lambda>_.
      bind (for_each (py_range vlen) (\<lambda>idx.
        bind (dprint None (''mem['' @ str_int (int idx) @ '']'')) (\<lambda>_.
        limits indent))) (\<lambda>_.
      section_remain))))"

definition global_section :: "pylib \<Rightarrow> unit pdec" where
  "global_section L =
     (let indent = replicate 2 CHR '' '' in
      pbind (lift (rd leb128u)) (\<lambda>vsiz.
      let vlen = val vsiz in
      pbind (lift (dprint (Some (dat vsiz)) (''global count = '' @ str_int vlen))) (\<lambda>_.
      pbind (pfor_each (py_range vlen) (\<lambda>idx.
        pbind (lift (dprint None (''global['' @ str_int (int idx) @ '']''))) (\<lambda>_.
        pbind (lift (value_type (indent @ ''valtype = ''))) (\<lambda>_.
        pbind (lift (mutability (indent @ ''mut = ''))) (\<lambda>_.
        pbind (lift (dprint None (indent @ ''expr''))) (\<lambda>_.
        expression L 2 0 2)))))) (\<lambda>_.
      lift section_remain))))"

definition export_section :: "pylib \<Rightarrow> unit dec" where
  "export_section L =
     (let indent = replicate 2 CHR '' ''; nindent = replicate 4 CHR '' '' in
      bind (rd leb128u) (\<lambda>vsiz.
      let vlen = val vsiz in
      bind (dprint (Some (dat vsiz)) (''export count = '' @ str_int vlen)) (\<lambda>_.
      bind (for_each (py_range vlen) (\<lambda>idx.
        bind (dprint None (''export['' @ str_int (int idx) @ '']'')) (\<lambda>_.
        bind (rd (utf8 L)) (\<lambda>name.
        bind (dprint (Some (dat name))
               (indent @ ''name = '' @ [CHR 0x22] @ val name @ [CHR 0x22])) (\<lambda>_.
        bind (rd byte) (\<lambda>exp.
        let mode = val exp; mnam = EXPORT_MODE mode in
        bind (dprint (Some (dat exp)) (indent @ str_opt mnam)) (\<lambda>_.
        case mnam of
          None \<Rightarrow> raise (NotImplementedError (''unknown export section: '' @ str_int mode))
        | Some nm \<Rightarrow>
            bind (rd leb128u) (\<lambda>etid.
            dprint (Some (dat etid)) (nindent @ nm @ ''idx = '' @ str_int (val etid)))))))))) (\<lambda>_.
      section_remain))))"

definition start_section :: "unit dec" where
  "start_section =
     bind (rd leb128u) (\<lambda>funcidx.
     bind (dprint (Some (dat funcidx)) (''funcidx = '' @ str_int (val funcidx))) (\<lambda>_.
     section_remain))"

text \<open>
  Python values in a comparison with \<^verbatim>\<open>==\<close> or \<^verbatim>\<open>!=\<close>. Class \<^verbatim>\<open>Integer\<close> defines \<^verbatim>\<open>__int__\<close> only,
  neither \<^verbatim>\<open>__eq__\<close> nor \<^verbatim>\<open>__ne__\<close>: an \<^verbatim>\<open>Integer\<close> object and an \<^verbatim>\<open>int\<close> are compared by
  identity and are never equal. Equality of the datatype is that comparison.
\<close>

datatype pyobj = PyInt int | PyInteger Integer

definition element_section :: "pylib \<Rightarrow> unit pdec" where
  "element_section L =
     (let indent = replicate 2 CHR '' '' in
      pbind (lift (rd leb128u)) (\<lambda>vsiz.
      let vlen = val vsiz in
      pbind (lift (dprint (Some (dat vsiz)) (''element count = '' @ str_int vlen))) (\<lambda>_.
      pbind (pfor_each (py_range vlen) (\<lambda>idx.
        pbind (lift (rd byte)) (\<lambda>code.
        let mode = val code in
        pbind (lift (dprint (Some (dat code))
                 (''elem['' @ str_int (int idx) @ ''] (mode:'' @ str_int mode @ '')''))) (\<lambda>_.
        if mode \<ge> 8 then lift (raise (NotImplementedError (''unknown element: '' @ str_int mode)))
        else
        pbind (if mode \<in> {2, 6} then
                 lift (bind (rd leb128u) (\<lambda>tabidx.
                       dprint (Some (dat tabidx))
                         (indent @ ''tableidx = '' @ str_int (val tabidx))))
               else lift (return ())) (\<lambda>_.
        pbind (if mode AND 1 = 0 then
                 pbind (lift (dprint None (indent @ ''expr''))) (\<lambda>_. expression L 2 0 2)
               else lift (return ())) (\<lambda>_.
        if mode AND 4 \<noteq> 0 then
          pbind (if mode AND 3 \<noteq> 0 then
                   lift (bind read_valtype (\<lambda>cvt. dprint (Some (dat cvt)) (indent @ val cvt)))
                 else lift (return ())) (\<lambda>_.
          pbind (lift (rd leb128u)) (\<lambda>exprs.
          let count = val exprs in
          pbind (lift (dprint (Some (dat exprs))
                   (indent @ ''expr count = '' @ str_int count))) (\<lambda>_.
          pfor_each (py_range count) (\<lambda>idx.
            pbind (lift (dprint None (indent @ ''expr['' @ str_int (int idx) @ '']''))) (\<lambda>_.
            expression L 2 0 2)))))
        else
          pbind (if mode AND 3 \<noteq> 0 then
                   lift (bind (rd byte) (\<lambda>kind.
                         if PyInteger kind \<noteq> PyInt 0
                         then raise (NotImplementedError
                                (''unknown elemkind: '' @ str_int (val kind)))
                         else dprint (Some (dat kind)) (indent @ ''funcref'')))
                 else lift (return ())) (\<lambda>_.
          pbind (lift (rd leb128u)) (\<lambda>exprs.
          let count = val exprs in
          pbind (lift (dprint (Some (dat exprs))
                   (indent @ ''funcidx count = '' @ str_int count))) (\<lambda>_.
          lift (for_each (py_range count) (\<lambda>idx.
            bind (rd leb128u) (\<lambda>fid.
            dprint (Some (dat fid))
              (indent @ ''funcidx['' @ str_int (int idx) @ ''] = ''
                 @ str_int (val fid)))))))))))))) (\<lambda>_.
      lift section_remain))))"

definition code_section :: "pylib \<Rightarrow> unit pdec" where
  "code_section L =
     (let indent = replicate 2 CHR '' '' in
      pbind (lift (rd leb128u)) (\<lambda>vsiz.
      let vlen = val vsiz in
      pbind (lift (dprint (Some (dat vsiz)) (''code count = '' @ str_int vlen))) (\<lambda>_.
      pbind (pfor_each (py_range vlen) (\<lambda>idx.
        pbind (lift (rd leb128u)) (\<lambda>csz.
        pbind (lift (dprint None (''code['' @ str_int (int idx) @ '']''))) (\<lambda>_.
        pbind (lift (dprint (Some (dat csz)) (indent @ ''code size = '' @ str_int (val csz)))) (\<lambda>_.
        pbind (lift (rd (load (nat (val csz))))) (\<lambda>code.
        on_stream code (
          pbind (lift (rd leb128u)) (\<lambda>lsz.
          pbind (lift (dprint (Some (dat lsz)) (indent @ ''local size = '' @ str_int (val lsz)))) (\<lambda>_.
          pbind (lift (for_each (py_range (val lsz)) (\<lambda>lnum.
            bind (rd leb128u) (\<lambda>tcnt.
            bind (dprint None (indent @ ''local['' @ str_int (int lnum) @ '']'')) (\<lambda>_.
            bind (dprint (Some (dat tcnt))
                   (indent @ ''  type count = '' @ str_int (val tcnt))) (\<lambda>_.
            bind read_valtype (\<lambda>cvt.
            dprint (Some (dat cvt)) (indent @ ''  type = '' @ val cvt)))))))) (\<lambda>_.
          pbind (expression L 1 0 2) (\<lambda>_.
          lift section_remain))))))))))) (\<lambda>_.
      lift section_remain))))"

text \<open>Attribute access on an \<^verbatim>\<open>Integer\<close> where a \<^verbatim>\<open>ReadData\<close> is expected: the class has the
  attributes \<^verbatim>\<open>value\<close> and \<^verbatim>\<open>data\<close>; any other name, and the \<^verbatim>\<open>int\<close> under \<^verbatim>\<open>value\<close> once \<^verbatim>\<open>dprint\<close>
  asks it for \<^verbatim>\<open>fpos\<close>, raises \<^verbatim>\<open>AttributeError\<close>.\<close>

definition getattr_Integer :: "Integer \<Rightarrow> string \<Rightarrow> ReadData dec" where
  "getattr_Integer x name =
     (if name = ''data'' then return (dat x)
      else if name = ''value'' then raise (AttributeError ''fpos'')
      else raise (AttributeError name))"

definition data_section :: "pylib \<Rightarrow> unit pdec" where
  "data_section L =
     (let indent = replicate 2 CHR '' '' in
      pbind (lift (rd leb128u)) (\<lambda>vsiz.
      let vlen = val vsiz in
      pbind (lift (dprint (Some (dat vsiz)) (''data count = '' @ str_int vlen))) (\<lambda>_.
      pbind (pfor_each (py_range vlen) (\<lambda>idx.
        pbind (lift (rd leb128u)) (\<lambda>code.
        let mode = val code in
        pbind (lift (dprint (Some (dat code))
                 (''data['' @ str_int (int idx) @ ''] (mode='' @ str_int mode @ '')''))) (\<lambda>_.
        if mode \<ge> 3 then lift (raise (NotImplementedError (''unknown data: mode='' @ str_int mode)))
        else
        pbind (if mode = 2 then
                 lift (bind (rd leb128u) (\<lambda>memidx.
                       bind (getattr_Integer memidx ''code'') (\<lambda>d.
                       dprint (Some d) (indent @ ''memidx = '' @ str_int (val memidx)))))
               else lift (return ())) (\<lambda>_.
        pbind (if mode \<in> {0, 2} then expression L 1 0 2 else lift (return ())) (\<lambda>_.
        pbind (lift (rd leb128u)) (\<lambda>bsz.
        pbind (lift (dprint (Some (dat bsz)) (indent @ ''init size = '' @ str_int (val bsz)))) (\<lambda>_.
        pbind (lift (rd (load (nat (val bsz))))) (\<lambda>bdt.
        pbind (lift (data_strings (data bdt) (indent @ ''  ''))) (\<lambda>rows.
        lift (dprints (Some bdt) rows))))))))))) (\<lambda>_.
      lift section_remain))))"

definition datacount_section :: "unit dec" where
  "datacount_section =
     bind (rd long) (\<lambda>count.
     bind (dprint (Some (dat count)) (''data count = '' @ str_int (val count))) (\<lambda>_.
     section_remain))"

section \<open>Module driver\<close>

definition LINE_SEP :: string where
  "LINE_SEP = replicate 78 CHR ''-''"

definition FILE_MAGIC :: "byte list" where
  "FILE_MAGIC = [0x00, 0x61, 0x73, 0x6D]"

definition SECTION_NAME :: "string list" where
  "SECTION_NAME = [''Custom'', ''Type'', ''Import'', ''Function'', ''Table'', ''Memory'',
     ''Global'', ''Export'', ''Start'', ''Element'', ''Code'', ''Data'', ''Data Count'']"

definition SECTION_FUNC :: "pylib \<Rightarrow> unit pdec list" where
  "SECTION_FUNC L =
     [lift (custom_section L), lift type_section, lift (import_section L),
      lift function_section, lift table_section, lift memory_section,
      global_section L, lift (export_section L), lift start_section,
      element_section L, code_section L, data_section L, lift datacount_section]"

text \<open>One turn of the loop of \<^verbatim>\<open>main\<close>: the section header, then the handler on the payload,
  which \<^verbatim>\<open>file.read(ssz)\<close> cuts out (short if the file ends early).\<close>

definition section_step :: "pylib \<Rightarrow> unit pdec" where
  "section_step L =
     pbind (lift (print LINE_SEP)) (\<lambda>_.
     pbind (lift (rd byte)) (\<lambda>secid.
     let sid = val secid in
     pbind (lift (index SECTION_NAME sid)) (\<lambda>name.
     pbind (lift (dprint (Some (dat secid))
              (name @ '' Section (id='' @ str_int sid @ '')''))) (\<lambda>_.
     pbind (lift (rd leb128u)) (\<lambda>secsize.
     let ssz = val secsize in
     pbind (lift (dprint (Some (dat secsize)) (''section size = '' @ str_int ssz))) (\<lambda>_.
     pbind (lift (index (SECTION_FUNC L) sid)) (\<lambda>handler.
     pbind (lift (rd_read (nat ssz))) (\<lambda>payload.
     on_stream payload handler))))))))"

text \<open>\<^verbatim>\<open>while file.remain(): ...\<close>\<close>

partial_function (option) sections_loop :: "pylib \<Rightarrow> state \<Rightarrow> ((error + unit) \<times> state) option" where
  "sections_loop L s =
     (if remain (stream s) \<noteq> 0 then
        Option.bind (section_step L s)
          (\<lambda>r. case r of
                 (Inl e, s') \<Rightarrow> Some (Inl e, s')
               | (Inr u, s') \<Rightarrow> sections_loop L s')
      else Some (Inr (), s))"

declare sections_loop.simps [code]

text \<open>\<^verbatim>\<open>main\<close>, from the file's name, the \<^verbatim>\<open>--width\<close> argument and the file's bytes. The widths
  of the address column are layout and left out.\<close>

definition main :: "pylib \<Rightarrow> string \<Rightarrow> int \<Rightarrow> byte list \<Rightarrow> ((error + unit) \<times> state) option" where
  "main L file_name width bytes =
     (pbind (lift (print LINE_SEP)) (\<lambda>_.
      pbind (lift (print (''Path: '' @ file_name))) (\<lambda>_.
      pbind (lift (print LINE_SEP)) (\<lambda>_.
      pbind (lift (rd_read 4)) (\<lambda>magic.
      pbind (lift (dprint (Some magic) (''magic = '' @ bytes_repr (data magic)))) (\<lambda>_.
      if data magic \<noteq> FILE_MAGIC then lift (raise ValueError)
      else
        pbind (lift (rd long)) (\<lambda>version.
        pbind (lift (dprint (Some (dat version)) (''version = '' @ str_int (val version)))) (\<lambda>_.
        sections_loop L))))))))
       \<lparr>stream = \<lparr>path = file_name, data = bytes, fpos = 0, rpos = 0\<rparr>, out = [], BYTESW = width\<rparr>"

section \<open>Notions used to state the properties\<close>

text \<open>A cursor \<open>c'\<close> that a decoder reached from \<open>c\<close>: the same buffer, not further back, and
  within the buffer if \<open>c\<close> was.\<close>

definition adv :: "ReadData \<Rightarrow> ReadData \<Rightarrow> bool" where
  "adv c c' \<longleftrightarrow>
     data c' = data c \<and> rpos c \<le> rpos c' \<and> (rpos c \<le> length (data c) \<longrightarrow> rpos c' \<le> length (data c))"

text \<open>A cursor method that only moves the cursor onward when it succeeds.\<close>

definition keeps :: "(ReadData \<Rightarrow> (error + 'a) \<times> ReadData) \<Rightarrow> bool" where
  "keeps f \<longleftrightarrow> (\<forall>c r c'. f c = (Inr r, c') \<longrightarrow> adv c c')"

text \<open>A decoder that only moves the cursor onward when it succeeds, from any position at or
  after \<open>rp\<close>; \<^verbatim>\<open>reload(rp)\<close> is one.\<close>

definition onward :: "nat \<Rightarrow> 'a dec \<Rightarrow> bool" where
  "onward rp m \<longleftrightarrow>
     (\<forall>s r s'. rp \<le> rpos (stream s) \<longrightarrow> m s = (Inr r, s') \<longrightarrow> adv (stream s) (stream s'))"

text \<open>The expression walker with a budget: every turn of the loop and every recursive call
  takes one unit from it, and the walk stops with \<open>None\<close> when none is left. Apart from the
  budget it is the text of \<open>expression\<close>; it serves to bound the walk.\<close>

fun expression_fuel ::
  "nat \<Rightarrow> pylib \<Rightarrow> int \<Rightarrow> int \<Rightarrow> int \<Rightarrow> state \<Rightarrow> ((error + unit) \<times> state) option" where
  "expression_fuel 0 L indent_base indent_level indent_step s = None"
| "expression_fuel (Suc n) L indent_base indent_level indent_step s =
     (if remain (stream s) > 0 then
        (case instruction L indent_base indent_level indent_step s of
           (Inl e, s') \<Rightarrow> Some (Inl e, s')
         | (Inr asm, s') \<Rightarrow>
             if asm = ''end'' then Some (Inr (), s')
             else if asm \<in> {''block'', ''loop'', ''if''} then
               Option.bind (expression_fuel n L indent_base (indent_level + 1) indent_step s')
                 (\<lambda>r. case r of
                        (Inl e, s'') \<Rightarrow> Some (Inl e, s'')
                      | (Inr u, s'') \<Rightarrow> expression_fuel n L indent_base indent_level indent_step s'')
             else expression_fuel n L indent_base indent_level indent_step s')
      else Some (Inr (), s))"

text \<open>The nesting depth after an instruction: \<^verbatim>\<open>end\<close> closes a scope, \<^verbatim>\<open>block\<close>, \<^verbatim>\<open>loop\<close> and \<^verbatim>\<open>if\<close>
  open one.\<close>

definition depth_after :: "string \<Rightarrow> nat \<Rightarrow> nat" where
  "depth_after asm d =
     (if asm = ''end'' then d - 1
      else if asm \<in> {''block'', ''loop'', ''if''} then d + 1
      else d)"

text \<open>The first \<open>n\<close> instructions of a walk, told instruction by instruction, without the
  walker's loop or recursion: from depth \<open>d\<close> (0 is the walker that was called) and state
  \<open>s\<close>, each instruction is decoded with bytes remaining and at the indentation of its
  depth, none fails, and none is an \<^verbatim>\<open>end\<close> at depth 0, which would finish the walk. The
  result is the depth and the state reached; \<open>None\<close> if the bytes do not decode so.\<close>

fun decoded ::
  "pylib \<Rightarrow> int \<Rightarrow> int \<Rightarrow> int \<Rightarrow> nat \<Rightarrow> nat \<Rightarrow> state \<Rightarrow> (nat \<times> state) option" where
  "decoded L indent_base indent_level indent_step 0 d s = Some (d, s)"
| "decoded L indent_base indent_level indent_step (Suc n) d s =
     (if 0 < remain (stream s) then
        (case instruction L indent_base (indent_level + int d) indent_step s of
           (Inl e, s1) \<Rightarrow> None
         | (Inr asm, s1) \<Rightarrow>
             if asm = ''end'' \<and> d = 0 then None
             else decoded L indent_base indent_level indent_step n (depth_after asm d) s1)
      else None)"

text \<open>The walkers active at depth \<open>d\<close>, innermost first: the one at depth \<open>d\<close> runs from
  \<open>s\<close>, and when it returns normally its caller goes on from where it stopped.\<close>

fun unwind ::
  "pylib \<Rightarrow> int \<Rightarrow> int \<Rightarrow> int \<Rightarrow> nat \<Rightarrow> state \<Rightarrow> ((error + unit) \<times> state) option" where
  "unwind L indent_base indent_level indent_step 0 s =
     expression L indent_base indent_level indent_step s"
| "unwind L indent_base indent_level indent_step (Suc d) s =
     Option.bind (expression L indent_base (indent_level + int (Suc d)) indent_step s)
       (\<lambda>r. case r of
              (Inl e, s') \<Rightarrow> Some (Inl e, s')
            | (Inr u, s') \<Rightarrow> unwind L indent_base indent_level indent_step d s')"

text \<open>Modelled from the spec: \<^verbatim>\<open>TruncatedInput\<close>, "a primitive read ran past end-of-buffer". The
  program has no error classes of its own; a read past the end shows as the \<^verbatim>\<open>IOError\<close> of
  \<^verbatim>\<open>load\<close> or as the \<^verbatim>\<open>IndexError\<close> of indexing beyond the bytes at hand.\<close>

definition TruncatedInput :: "error \<Rightarrow> bool" where
  "TruncatedInput e \<longleftrightarrow>
     (case e of IndexError \<Rightarrow> True | IOError m \<Rightarrow> prefix ''not enough data'' m | _ \<Rightarrow> False)"

text \<open>An instance of the library functions for closed examples: \<^verbatim>\<open>codecs.decode\<close> on ASCII
  bytes, fixed texts for the rest.\<close>

definition ascii_lib :: pylib where
  "ascii_lib =
     \<lparr>codecs_decode = (\<lambda>bs. if \<forall>b \<in> set bs. b < 0x80 then Some (map (\<lambda>b. char_of (unat b)) bs) else None),
      unpack_f = (\<lambda>bs. ''<f32>''),
      unpack_d = (\<lambda>bs. ''<f64>''),
      object_str = (\<lambda>i. ''<Integer object>'')\<rparr>"

section \<open>Properties\<close>

subsection \<open>LEB128 values\<close>



lemma sum_list_enumerate:
  "sum_list (map f (enumerate n xs)) = (\<Sum>i<length xs. f (n + i, xs ! i))"
proof -
  have "sum_list (map f (enumerate n xs)) = (\<Sum>i = 0..<length xs. map f (enumerate n xs) ! i)"
    by (simp add: sum_list_sum_nth)
  also have "\<dots> = (\<Sum>i = 0..<length xs. f (n + i, xs ! i))"
    by (rule sum.cong) (simp_all add: nth_enumerate_eq)
  finally show ?thesis by (simp add: lessThan_atLeast0)
qed

lemma decode_leb128u_sum:
  "decode_leb128u bs = (\<Sum>i<length bs. push_bit (7 * i) (uint (bs ! i) AND 0x7F))"
  by (simp add: decode_leb128u_def sum_list_enumerate mult.commute)

lemma and127_mod: "uint (b::byte) AND 127 = uint b mod 128"
  using take_bit_eq_mask [of 7 "uint b"] by (simp add: take_bit_eq_mod mask_eq_exp_minus_1)

lemma and127_range: "0 \<le> uint (b::byte) AND 127 \<and> uint b AND 127 \<le> 127"
  by (simp add: and127_mod)

lemma hibit: "((b::byte) AND 0x80 \<noteq> 0) \<longleftrightarrow> 128 \<le> uint b"
proof -
  have "(b AND 0x80 \<noteq> 0) \<longleftrightarrow> bit b 7"
    using and_exp_eq_0_iff_not_bit [of b 7] by simp
  also have "\<dots> \<longleftrightarrow> bit (uint b) 7" by (simp add: bit_uint_iff)
  also have "\<dots> \<longleftrightarrow> odd (uint b div 128)" by (simp add: bit_iff_odd)
  also have "\<dots> \<longleftrightarrow> 128 \<le> uint b"
  proof -
    have "0 \<le> uint b" "uint b < 256" using uint_bounded [of b] by simp_all
    then have "uint b div 128 = 0 \<or> uint b div 128 = 1" by arith
    moreover have "uint b div 128 = 1 \<longleftrightarrow> 128 \<le> uint b"
      using \<open>0 \<le> uint b\<close> \<open>uint b < 256\<close> by arith
    ultimately show ?thesis by auto
  qed
  finally show ?thesis .
qed

lemma byte_FF: "(uint (b::byte) AND 127 = 127 \<and> b AND 0x80 \<noteq> 0) \<longleftrightarrow> b = 0xFF"
proof
  assume a: "uint b AND 127 = 127 \<and> b AND 0x80 \<noteq> 0"
  have "0 \<le> uint b" "uint b < 256" using uint_bounded [of b] by simp_all
  with a have "uint b = 255" unfolding and127_mod hibit by arith
  then have "word_of_int (uint b) = (word_of_int 255 :: byte)" by simp
  then show "b = 0xFF" by simp
next
  assume "b = 0xFF"
  then show "uint b AND 127 = 127 \<and> b AND 0x80 \<noteq> 0" by simp
qed

lemma decode_leb128u_Cons:
  "decode_leb128u (b # bs) = (uint b AND 0x7F) + 128 * decode_leb128u bs"
proof -
  have "decode_leb128u (b # bs)
      = (\<Sum>i<Suc (length bs). push_bit (7 * i) (uint ((b # bs) ! i) AND 0x7F))"
    by (simp add: decode_leb128u_sum)
  also have "\<dots> = (uint b AND 0x7F)
      + (\<Sum>i<length bs. push_bit (7 * Suc i) (uint (bs ! i) AND 0x7F))"
    by (subst sum.lessThan_Suc_shift) simp
  also have "(\<Sum>i<length bs. push_bit (7 * Suc i) (uint (bs ! i) AND 0x7F))
      = 128 * decode_leb128u bs"
    by (simp add: decode_leb128u_sum push_bit_eq_mult power_add sum_distrib_left algebra_simps)
  finally show ?thesis .
qed

lemma decode_leb128u_snoc:
  "decode_leb128u (bs @ [b]) = decode_leb128u bs + (uint b AND 0x7F) * 2 ^ (7 * length bs)"
  by (simp add: decode_leb128u_sum nth_append push_bit_eq_mult)

lemma decode_leb128u_range:
  "0 \<le> decode_leb128u bs \<and> decode_leb128u bs \<le> 2 ^ (7 * length bs) - 1"
proof (induction bs)
  case Nil
  show ?case by (simp add: decode_leb128u_def)
next
  case (Cons b bs)
  have p: "(2::int) ^ (7 * length (b # bs)) = 128 * 2 ^ (7 * length bs)"
    by (simp add: power_add)
  define X where "X = (2::int) ^ (7 * length bs)"
  define a where "a = uint b AND 127"
  from Cons have "0 \<le> decode_leb128u bs" "decode_leb128u bs \<le> X - 1"
    by (simp_all add: X_def)
  moreover from and127_range [of b] have "0 \<le> a" "a \<le> 127" by (simp_all add: a_def)
  ultimately have "0 \<le> a + 128 * decode_leb128u bs \<and> a + 128 * decode_leb128u bs \<le> 128 * X - 1"
    by arith
  then show ?case
    unfolding decode_leb128u_Cons p by (simp add: X_def a_def)
qed

lemma decode_leb128u_max:
  "decode_leb128u bs = 2 ^ (7 * length bs) - 1 \<longleftrightarrow> (\<forall>b \<in> set bs. uint b AND 127 = 127)"
proof (induction bs)
  case Nil
  show ?case by (simp add: decode_leb128u_def)
next
  case (Cons b bs)
  have p: "(2::int) ^ (7 * length (b # bs)) = 128 * 2 ^ (7 * length bs)"
    by (simp add: power_add)
  define X where "X = (2::int) ^ (7 * length bs)"
  define a where "a = uint b AND 127"
  from decode_leb128u_range [of bs] have "0 \<le> decode_leb128u bs" "decode_leb128u bs \<le> X - 1"
    by (simp_all add: X_def)
  moreover from and127_range [of b] have "0 \<le> a" "a \<le> 127" by (simp_all add: a_def)
  ultimately have "a + 128 * decode_leb128u bs = 128 * X - 1
      \<longleftrightarrow> a = 127 \<and> decode_leb128u bs = X - 1"
    by arith
  with Cons show ?case
    unfolding decode_leb128u_Cons p by (simp add: X_def a_def)
qed

text \<open>
  Claim C7, as amended: a LEB128 byte sequence whose last byte is \<open>0x7F\<close> decodes signed to
  \<open>-1\<close> exactly when every byte before the last is \<open>0xFF\<close>; in particular the one-byte
  sequence \<open>0x7F\<close> does.
\<close>

theorem leb128s_last_7F:
  assumes "is_leb128 (bs @ [0x7F])"
  shows "decode_leb128s (bs @ [0x7F]) = Inr (- 1) \<longleftrightarrow> (\<forall>b \<in> set bs. b = 0xFF)"
proof -
  from assms have hi: "\<forall>b \<in> set bs. b AND 0x80 \<noteq> 0"
    by (simp add: is_leb128_def)
  have "decode_leb128s (bs @ [0x7F]) = Inr (decode_leb128u bs - 2 ^ (7 * length bs))"
    by (simp add: decode_leb128s_def decode_leb128u_snoc push_bit_eq_mult power_add mult.commute)
  then have "decode_leb128s (bs @ [0x7F]) = Inr (- 1)
      \<longleftrightarrow> decode_leb128u bs = 2 ^ (7 * length bs) - 1"
    by auto
  also have "\<dots> \<longleftrightarrow> (\<forall>b \<in> set bs. uint b AND 127 = 127)"
    by (rule decode_leb128u_max)
  also have "\<dots> \<longleftrightarrow> (\<forall>b \<in> set bs. b = 0xFF)"
    using hi byte_FF by blast
  finally show ?thesis .
qed

theorem leb128s_last_7F_witness:
  "is_leb128 ([0xFF, 0xFF] @ [0x7F]) \<and> decode_leb128s [0xFF, 0xFF, 0x7F] = Inr (- 1)
   \<and> is_leb128 ([] @ [0x7F]) \<and> decode_leb128s [0x7F] = Inr (- 1)"
  using leb128s_last_7F [of "[0xFF, 0xFF]"] leb128s_last_7F [of "[]"]
  by (simp add: is_leb128_def)

text \<open>
  Claim C7 as first stated (every LEB128 sequence ending in \<open>0x7F\<close> decodes signed to
  \<open>-1\<close>) fails on the two-byte sequence \<open>80 7F\<close>, which decodes to \<open>-128\<close>.
\<close>

theorem leb128s_last_7F_counterexample:
  "is_leb128 [0x80, 0x7F] \<and> last [0x80, 0x7F :: byte] = 0x7F
   \<and> decode_leb128s [0x80, 0x7F] = Inr (- 128)"
  by (simp add: is_leb128_def decode_leb128s_def decode_leb128u_def enumerate_eq_zip)

lemma leb128_scan_append:
  "is_leb128 bs \<Longrightarrow> drop p d = bs @ rest \<Longrightarrow> leb128_scan d p = Some (p + length bs)"
proof (induction bs arbitrary: p)
  case Nil
  then show ?case by (simp add: is_leb128_def)
next
  case (Cons b bs)
  from Cons.prems(2) have p: "p < length d"
    by (metis drop_all list.distinct(1) Nil_is_append_conv not_le)
  from Cons.prems(2) p have b: "d ! p = b"
    by (metis Cons_nth_drop_Suc append_Cons list.inject)
  from Cons.prems(2) p have dr: "drop (Suc p) d = bs @ rest"
    by (metis Cons_nth_drop_Suc append_Cons list.inject)
  show ?case
  proof (cases "bs = []")
    case True
    with Cons.prems(1) have "b AND 0x80 = 0" by (simp add: is_leb128_def)
    with p b True show ?thesis by (subst leb128_scan.simps) simp
  next
    case False
    with Cons.prems(1) have hi: "b AND 0x80 \<noteq> 0" and rest: "is_leb128 bs"
      by (simp_all add: is_leb128_def)
    from Cons.IH [OF rest dr] have "leb128_scan d (Suc p) = Some (Suc p + length bs)" .
    with p b hi show ?thesis by (subst leb128_scan.simps) simp
  qed
qed

lemma leb128_at:
  assumes "is_leb128 bs" and "drop (rpos c) (data c) = bs @ rest"
  shows "leb128 c = (Inr \<lparr>path = path c, data = bs, fpos = fpos c + rpos c, rpos = 0\<rparr>,
                      c\<lparr>rpos := rpos c + length bs\<rparr>)"
  using assms leb128_scan_append [OF assms]
  by (simp add: leb128_def read_def)

text \<open>
  Claim C6: on a cursor standing at one LEB128 \<open>bs\<close>, the unsigned read consumes exactly
  \<open>bs\<close> and its value is the sum over \<open>i\<close> of \<open>(bs ! i AND 0x7F)\<close> shifted left by
  \<open>7 * i\<close>, an unbounded integer; the signed read yields that sum minus
  \<open>1 << (7 * length bs)\<close> when bit 6 of the last byte is set, and the sum otherwise.
\<close>

theorem leb128_decode_value:
  assumes "is_leb128 bs" and "drop (rpos c) (data c) = bs @ rest"
  shows "leb128u c =
           (Inr \<lparr>val = (\<Sum>i<length bs. push_bit (7 * i) (uint (bs ! i) AND 0x7F)),
                 dat = \<lparr>path = path c, data = bs, fpos = fpos c + rpos c, rpos = 0\<rparr>\<rparr>,
            c\<lparr>rpos := rpos c + length bs\<rparr>)
       \<and> leb128s c =
           (Inr \<lparr>val = (if last bs AND 0x40 \<noteq> 0
                        then (\<Sum>i<length bs. push_bit (7 * i) (uint (bs ! i) AND 0x7F))
                             - push_bit (7 * length bs) 1
                        else (\<Sum>i<length bs. push_bit (7 * i) (uint (bs ! i) AND 0x7F))),
                 dat = \<lparr>path = path c, data = bs, fpos = fpos c + rpos c, rpos = 0\<rparr>\<rparr>,
            c\<lparr>rpos := rpos c + length bs\<rparr>)"
proof -
  from assms(1) have ne: "bs \<noteq> []" by (simp add: is_leb128_def)
  show ?thesis
    using ne
    by (simp add: leb128u_def leb128s_def leb128_at [OF assms] decode_leb128s_def
        decode_leb128u_sum mult.commute Let_def)
qed

theorem leb128_decode_value_witness:
  "is_leb128 [0xE5, 0x8E, 0x26] \<and>
   leb128u \<lparr>path = ''m.wasm'', data = [0x01, 0xE5, 0x8E, 0x26, 0x0B], fpos = 8, rpos = 1\<rparr> =
     (Inr \<lparr>val = 624485,
           dat = \<lparr>path = ''m.wasm'', data = [0xE5, 0x8E, 0x26], fpos = 9, rpos = 0\<rparr>\<rparr>,
      \<lparr>path = ''m.wasm'', data = [0x01, 0xE5, 0x8E, 0x26, 0x0B], fpos = 8, rpos = 4\<rparr>) \<and>
   is_leb128 [0xC0, 0xBB, 0x78] \<and>
   leb128s \<lparr>path = ''m.wasm'', data = [0xC0, 0xBB, 0x78, 0x0B], fpos = 8, rpos = 0\<rparr> =
     (Inr \<lparr>val = - 123456,
           dat = \<lparr>path = ''m.wasm'', data = [0xC0, 0xBB, 0x78], fpos = 8, rpos = 0\<rparr>\<rparr>,
      \<lparr>path = ''m.wasm'', data = [0xC0, 0xBB, 0x78, 0x0B], fpos = 8, rpos = 3\<rparr>)"
  using leb128_decode_value [of "[0xE5, 0x8E, 0x26]"
      "\<lparr>path = ''m.wasm'', data = [0x01, 0xE5, 0x8E, 0x26, 0x0B], fpos = 8, rpos = 1\<rparr>" "[0x0B]"]
    leb128_decode_value [of "[0xC0, 0xBB, 0x78]"
      "\<lparr>path = ''m.wasm'', data = [0xC0, 0xBB, 0x78, 0x0B], fpos = 8, rpos = 0\<rparr>" "[0x0B]"]
  by (simp add: is_leb128_def lessThan_Suc numeral_3_eq_3)

subsection \<open>Spans of the primitive reads\<close>

lemma leb128_scan_range: "leb128_scan d p = Some q \<Longrightarrow> p < q \<and> q \<le> length d"
proof (induction d p rule: leb128_scan.induct)
  case (1 d pos)
  show ?case
  proof (cases "pos < length d \<and> d ! pos AND 0x80 \<noteq> 0")
    case True
    with "1.prems" have "leb128_scan d (pos + 1) = Some q"
      by (simp add: leb128_scan.simps [of d pos])
    with "1.IH" True show ?thesis by fastforce
  next
    case False
    with "1.prems" show ?thesis
      by (auto simp: leb128_scan.simps [of d pos] split: if_splits)
  qed
qed

lemma read_span: "within c \<Longrightarrow> read n c = (sp, c') \<Longrightarrow> span_of c sp c' \<and> within c'"
  by (auto simp: read_def within_def span_of_def Let_def)

lemma load_span:
  "within c \<Longrightarrow> load n c = (r, c') \<Longrightarrow> within c' \<and> (\<forall>sp. r = Inr sp \<longrightarrow> span_of c sp c')"
  using read_span [of c n]
  by (auto simp: load_def split: prod.splits if_splits)

lemma reload_span:
  "within c \<Longrightarrow> pos \<le> rpos c \<Longrightarrow> reload pos c = (r, c') \<Longrightarrow>
     within c' \<and> (\<forall>sp. r = Inr sp \<longrightarrow> rewound_span pos c sp c')"
  by (auto simp: reload_def load_def read_def within_def rewound_span_def Let_def
      split: if_splits)

lemma long_span:
  "within c \<Longrightarrow> long c = (r, c') \<Longrightarrow> within c' \<and> (\<forall>i. r = Inr i \<longrightarrow> span_of c (dat i) c')"
  using read_span [of c 4]
  by (auto simp: long_def split: prod.splits if_splits)

lemma leb128_span:
  "within c \<Longrightarrow> leb128 c = (r, c') \<Longrightarrow> within c' \<and> (\<forall>sp. r = Inr sp \<longrightarrow> span_of c sp c')"
  using read_span [of c]
  by (auto simp: leb128_def split: option.splits prod.splits)

lemma leb128u_span:
  "within c \<Longrightarrow> leb128u c = (r, c') \<Longrightarrow> within c' \<and> (\<forall>i. r = Inr i \<longrightarrow> span_of c (dat i) c')"
  using leb128_span [of c]
  by (auto simp: leb128u_def split: prod.splits sum.splits)

lemma leb128s_span:
  "within c \<Longrightarrow> leb128s c = (r, c') \<Longrightarrow> within c' \<and> (\<forall>i. r = Inr i \<longrightarrow> span_of c (dat i) c')"
  using leb128_span [of c]
  by (auto simp: leb128s_def split: prod.splits sum.splits)

lemma utf8_span:
  assumes "within c" and "utf8 L c = (r, c')"
  shows "within c' \<and> (\<forall>s. r = Inr s \<longrightarrow> span_of c (dat s) c')"
proof (cases "leb128u c")
  case (Pair r1 c1)
  with leb128u_span [OF assms(1) Pair]
  have w1: "within c1" and s1: "\<forall>i. r1 = Inr i \<longrightarrow> span_of c (dat i) c1" by simp_all
  show ?thesis
  proof (cases r1)
    case (Inl e)
    with Pair assms(2) w1 show ?thesis by (auto simp: utf8_def)
  next
    case (Inr cnt)
    obtain r2 c2 where l: "load (nat (val cnt)) c1 = (r2, c2)" by (cases "load (nat (val cnt)) c1")
    from load_span [OF w1 l]
    have w2: "within c2" and s2: "\<forall>sp. r2 = Inr sp \<longrightarrow> span_of c1 sp c2" by simp_all
    from s1 Inr have s1': "span_of c (dat cnt) c1" by simp
    show ?thesis
    proof (cases r2)
      case (Inl e)
      with Pair \<open>r1 = Inr cnt\<close> l assms(2) w2 show ?thesis by (auto simp: utf8_def)
    next
      case (Inr u)
      with s2 have "span_of c1 u c2" by simp
      with s1' have "span_of c ((dat cnt)\<lparr>data := data (dat cnt) @ data u\<rparr>) c2"
        by (simp add: span_of_def)
      with Pair \<open>r1 = Inr cnt\<close> l Inr assms(2) w2 show ?thesis
        by (auto simp: utf8_def Let_def split: option.splits)
    qed
  qed
qed

lemma spansI:
  "(\<And>r c'. res = (r, c') \<Longrightarrow> within c' \<and> (\<forall>x. r = Inr x \<longrightarrow> span_of c (sp x) c')) \<Longrightarrow> spans c sp res"
  by (auto simp: spans_def split: prod.splits sum.splits)

text \<open>
  Claim C5, as amended: on a cursor whose read position is within the buffer, every successful
  \<^verbatim>\<open>read\<close>, \<^verbatim>\<open>load\<close>, \<^verbatim>\<open>long\<close>, \<^verbatim>\<open>leb128\<close>, \<^verbatim>\<open>leb128u\<close>, \<^verbatim>\<open>leb128s\<close> and \<^verbatim>\<open>utf8\<close> returns a
  span whose file offset is the base offset plus the read position before the call and
  whose length is the number of positions the cursor advanced; \<^verbatim>\<open>reload\<close> of a saved position
  not beyond the current one returns the span from the saved position to the current one
  and leaves the read position where it was; and after every one of these operations,
  failed or not, the read position is within the buffer.
\<close>

theorem cursor_spans:
  assumes "within c"
  shows "spans c (\<lambda>sp. sp) (Inr (fst (read n c)), snd (read n c))
       \<and> spans c (\<lambda>sp. sp) (load n c)
       \<and> spans c dat (long c)
       \<and> spans c (\<lambda>sp. sp) (leb128 c)
       \<and> spans c dat (leb128u c)
       \<and> spans c dat (leb128s c)
       \<and> spans c dat (utf8 L c)
       \<and> (pos \<le> rpos c \<longrightarrow> rewinds pos c (reload pos c))"
proof -
  have 1: "spans c (\<lambda>sp. sp) (Inr (fst (read n c)), snd (read n c))"
    using read_span [OF assms, of n] by (cases "read n c") (simp add: spans_def)
  have 2: "spans c (\<lambda>sp. sp) (load n c)"
    by (rule spansI) (use load_span [OF assms] in blast)
  have 3: "spans c dat (long c)"
    by (rule spansI) (use long_span [OF assms] in blast)
  have 4: "spans c (\<lambda>sp. sp) (leb128 c)"
    by (rule spansI) (use leb128_span [OF assms] in blast)
  have 5: "spans c dat (leb128u c)"
    by (rule spansI) (use leb128u_span [OF assms] in blast)
  have 6: "spans c dat (leb128s c)"
    by (rule spansI) (use leb128s_span [OF assms] in blast)
  have 7: "spans c dat (utf8 L c)"
    by (rule spansI) (use utf8_span [OF assms] in blast)
  have 8: "pos \<le> rpos c \<longrightarrow> rewinds pos c (reload pos c)"
    using reload_span [OF assms, of pos]
    by (auto simp: rewinds_def split: prod.splits sum.splits)
  from 1 2 3 4 5 6 7 8 show ?thesis by blast
qed

theorem cursor_spans_witness:
  "within \<lparr>path = ''m.wasm'', data = [0x02, 0x68, 0x69, 0x2A, 0x00, 0x00, 0x00], fpos = 8, rpos = 0\<rparr>
   \<and> utf8 \<lparr>codecs_decode = (\<lambda>bs. if bs = [0x68, 0x69] then Some ''hi'' else None),
          unpack_f = (\<lambda>bs. ''''), unpack_d = (\<lambda>bs. ''''), object_str = (\<lambda>i. '''')\<rparr>
        \<lparr>path = ''m.wasm'', data = [0x02, 0x68, 0x69, 0x2A, 0x00, 0x00, 0x00], fpos = 8, rpos = 0\<rparr>
     = (Inr \<lparr>val = ''hi'', dat = \<lparr>path = ''m.wasm'', data = [0x02, 0x68, 0x69], fpos = 8, rpos = 0\<rparr>\<rparr>,
        \<lparr>path = ''m.wasm'', data = [0x02, 0x68, 0x69, 0x2A, 0x00, 0x00, 0x00], fpos = 8, rpos = 3\<rparr>)
   \<and> spans \<lparr>path = ''m.wasm'', data = [0x02, 0x68, 0x69, 0x2A, 0x00, 0x00, 0x00], fpos = 8, rpos = 0\<rparr> dat
       (utf8 \<lparr>codecs_decode = (\<lambda>bs. if bs = [0x68, 0x69] then Some ''hi'' else None),
          unpack_f = (\<lambda>bs. ''''), unpack_d = (\<lambda>bs. ''''), object_str = (\<lambda>i. '''')\<rparr>
          \<lparr>path = ''m.wasm'', data = [0x02, 0x68, 0x69, 0x2A, 0x00, 0x00, 0x00], fpos = 8, rpos = 0\<rparr>)"
  using cursor_spans [of "\<lparr>path = ''m.wasm'', data = [0x02, 0x68, 0x69, 0x2A, 0x00, 0x00, 0x00], fpos = 8, rpos = 0\<rparr>"
      0 "\<lparr>codecs_decode = (\<lambda>bs. if bs = [0x68, 0x69] then Some ''hi'' else None),
          unpack_f = (\<lambda>bs. ''''), unpack_d = (\<lambda>bs. ''''), object_str = (\<lambda>i. '''')\<rparr>" 0]
  by (simp add: within_def utf8_def leb128u_def leb128_def leb128_scan.simps read_def load_def
      decode_leb128u_def enumerate_eq_zip Let_def)

text \<open>
  Claim C5 as first stated includes \<^verbatim>\<open>reload\<close> among the reads whose span starts at the read
  position before the call and is as long as the cursor advanced. After \<^verbatim>\<open>41 2A\<close> has been
  consumed, \<^verbatim>\<open>reload(0)\<close> returns the two bytes at offset 8, not at 10, and the cursor has
  not moved.
\<close>

theorem cursor_spans_counterexample:
  "reload 0 \<lparr>path = ''m.wasm'', data = [0x41, 0x2A, 0x0B], fpos = 8, rpos = 2\<rparr>
     = (Inr \<lparr>path = ''m.wasm'', data = [0x41, 0x2A], fpos = 8, rpos = 0\<rparr>,
        \<lparr>path = ''m.wasm'', data = [0x41, 0x2A, 0x0B], fpos = 8, rpos = 2\<rparr>)
   \<and> \<not> span_of \<lparr>path = ''m.wasm'', data = [0x41, 0x2A, 0x0B], fpos = 8, rpos = 2\<rparr>
         \<lparr>path = ''m.wasm'', data = [0x41, 0x2A], fpos = 8, rpos = 0\<rparr>
         \<lparr>path = ''m.wasm'', data = [0x41, 0x2A, 0x0B], fpos = 8, rpos = 2\<rparr>"
  by (simp add: reload_def load_def read_def span_of_def Let_def)

subsection \<open>The sixteen-byte operands\<close>

lemma DISASM_FD_index: "DISASM ! 253 = Plane DISASM_FD"
  by (simp add: DISASM_def)

lemma DISASM_length: "length DISASM = 256"
  by (simp add: DISASM_def)

lemma DISASM_FD_length: "length DISASM_FD = 256"
  by (simp add: DISASM_FD_def)

lemma DISASM_FD_12: "DISASM_FD ! 12 = Ins [S ''vb16''] [''v128.const'', ''vb16'']"
  by (simp add: DISASM_FD_def)

lemma DISASM_FD_13: "DISASM_FD ! 13 = Ins [S ''vlt''] [''i8x16.shuffle'', ''vlt'']"
  by (simp add: DISASM_FD_def)

lemma operand_step_vb16:
  "operand_step L indent asm0 (S ''vb16'') s = (Inl (NotImplementedError (asm0 @ '' -> vb16'')), s)"
  by (simp add: operand_step_def raise_def str_operand_def)

lemma operand_step_vlt:
  "operand_step L indent asm0 (S ''vlt'') s = (Inl (NotImplementedError (asm0 @ '' -> vlt'')), s)"
  by (simp add: operand_step_def raise_def str_operand_def)

text \<open>
  Claim C1 says that \<^verbatim>\<open>v128.const\<close> and \<^verbatim>\<open>i8x16.shuffle\<close> read sixteen bytes after the mnemonic
  and complete. The decoder tests the operand kind with \<^verbatim>\<open>op == ('vb16', 'vlt')\<close>, which no
  operand of the table satisfies: whatever follows the opcode \<^verbatim>\<open>FD 0C\<close> or \<^verbatim>\<open>FD 0D\<close>, the
  mnemonic is emitted, no operand byte is read and \<^verbatim>\<open>NotImplementedError\<close> is raised.
\<close>

theorem sixteen_byte_operand_raises:
  "instruction L 0 0 2
     \<lparr>stream = \<lparr>path = p, data = [0xFD, 0x0C] @ imm, fpos = 0, rpos = 0\<rparr>, out = [], BYTESW = 8\<rparr>
   = (Inl (NotImplementedError ''v128.const -> vb16''),
      \<lparr>stream = \<lparr>path = p, data = [0xFD, 0x0C] @ imm, fpos = 0, rpos = 2\<rparr>,
       out = [Dprint (Some \<lparr>path = p, data = [0xFD, 0x0C], fpos = 0, rpos = 0\<rparr>) [''v128.const'']],
       BYTESW = 8\<rparr>)
   \<and> instruction L 0 0 2
     \<lparr>stream = \<lparr>path = p, data = [0xFD, 0x0D] @ imm, fpos = 0, rpos = 0\<rparr>, out = [], BYTESW = 8\<rparr>
   = (Inl (NotImplementedError ''i8x16.shuffle -> vlt''),
      \<lparr>stream = \<lparr>path = p, data = [0xFD, 0x0D] @ imm, fpos = 0, rpos = 2\<rparr>,
       out = [Dprint (Some \<lparr>path = p, data = [0xFD, 0x0D], fpos = 0, rpos = 0\<rparr>) [''i8x16.shuffle'']],
       BYTESW = 8\<rparr>)"
  by (simp add: instruction_def bind_def get_rpos_def rd_def byte_def load_def read_def
      index_def DISASM_length DISASM_FD_index subscript_def DISASM_FD_length
      DISASM_FD_12 DISASM_FD_13 leb128u_def leb128_def leb128_scan.simps
      decode_leb128u_def enumerate_eq_zip reload_def return_def raise_def dprint_def dprints_def
      operand_step_vb16 operand_step_vlt Let_def)

subsection \<open>Element and data segments\<close>

text \<open>
  Claim C2 says that an elemkind byte equal to 0 is accepted. The decoder compares the
  \<^verbatim>\<open>Integer\<close> object itself with \<^verbatim>\<open>0\<close>, so the comparison \<^verbatim>\<open>kind != 0\<close> holds for every byte: in
  modes 1, 2 and 3 an elemkind byte 0 raises \<^verbatim>\<open>unknown elemkind: 0\<close>.
\<close>

theorem elemkind_zero_rejected:
  "element_section L
     \<lparr>stream = \<lparr>path = p, data = [0x01, 0x01, 0x00, 0x00], fpos = 10, rpos = 0\<rparr>,
      out = [], BYTESW = 8\<rparr>
   = Some (Inl (NotImplementedError ''unknown elemkind: 0''),
      \<lparr>stream = \<lparr>path = p, data = [0x01, 0x01, 0x00, 0x00], fpos = 10, rpos = 3\<rparr>,
       out = [Dprint (Some \<lparr>path = p, data = [0x01], fpos = 10, rpos = 0\<rparr>)
                [''element count = 1''],
              Dprint (Some \<lparr>path = p, data = [0x01], fpos = 11, rpos = 0\<rparr>)
                [''elem[0] (mode:1)'']],
       BYTESW = 8\<rparr>)
   \<and> map_option fst (element_section L
     \<lparr>stream = \<lparr>path = p, data = [0x01, 0x02, 0x00, 0x41, 0x00, 0x0B, 0x00, 0x00],
                fpos = 10, rpos = 0\<rparr>,
      out = [], BYTESW = 8\<rparr>)
     = Some (Inl (NotImplementedError ''unknown elemkind: 0''))
   \<and> map_option fst (element_section L
     \<lparr>stream = \<lparr>path = p, data = [0x01, 0x03, 0x00, 0x00], fpos = 10, rpos = 0\<rparr>,
      out = [], BYTESW = 8\<rparr>)
     = Some (Inl (NotImplementedError ''unknown elemkind: 0''))"
  by code_simp

text \<open>
  Claim C3 says that a data segment of mode 2 is decoded to its end. After reading the
  memidx the decoder asks the \<^verbatim>\<open>Integer\<close> for an attribute \<^verbatim>\<open>code\<close> that it does not have:
  \<^verbatim>\<open>AttributeError\<close>, before the offset expression is read. Mode 3 raises \<^verbatim>\<open>unknown data\<close>, as
  claimed.
\<close>

theorem data_mode2_attribute_error:
  "data_section L
     \<lparr>stream = \<lparr>path = p, data = [0x01, 0x02, 0x00, 0x41, 0x00, 0x0B, 0x00],
                fpos = 10, rpos = 0\<rparr>,
      out = [], BYTESW = 8\<rparr>
   = Some (Inl (AttributeError ''code''),
      \<lparr>stream = \<lparr>path = p, data = [0x01, 0x02, 0x00, 0x41, 0x00, 0x0B, 0x00],
                 fpos = 10, rpos = 3\<rparr>,
       out = [Dprint (Some \<lparr>path = p, data = [0x01], fpos = 10, rpos = 0\<rparr>)
                [''data count = 1''],
              Dprint (Some \<lparr>path = p, data = [0x02], fpos = 11, rpos = 0\<rparr>)
                [''data[0] (mode=2)'']],
       BYTESW = 8\<rparr>)
   \<and> map_option fst (data_section L
     \<lparr>stream = \<lparr>path = p, data = [0x01, 0x03], fpos = 10, rpos = 0\<rparr>,
      out = [], BYTESW = 8\<rparr>)
     = Some (Inl (NotImplementedError ''unknown data: mode=3''))"
  by code_simp

subsection \<open>Truncated header\<close>

text \<open>
  Claim C8: on the six bytes \<^verbatim>\<open>00 61 73 6D 01 00\<close> the dump emits the magic annotation and then
  fails while reading the four-byte version, with the \<^verbatim>\<open>IndexError\<close> of \<^verbatim>\<open>long\<close> on the two
  bytes left: a read past the end of the buffer.
\<close>

theorem truncated_version:
  "main L p 8 [0x00, 0x61, 0x73, 0x6D, 0x01, 0x00]
   = Some (Inl IndexError,
      \<lparr>stream = \<lparr>path = p, data = [0x00, 0x61, 0x73, 0x6D, 0x01, 0x00], fpos = 0, rpos = 6\<rparr>,
       out = [Print LINE_SEP, Print (''Path: '' @ p), Print LINE_SEP,
              Dprint (Some \<lparr>path = p, data = [0x00, 0x61, 0x73, 0x6D], fpos = 0, rpos = 0\<rparr>)
                [''magic = b'' @ [CHR 0x27, CHR 0x5C] @ ''x00asm'' @ [CHR 0x27]]],
       BYTESW = 8\<rparr>)
   \<and> long \<lparr>path = p, data = [0x00, 0x61, 0x73, 0x6D, 0x01, 0x00], fpos = 0, rpos = 4\<rparr>
     = (Inl IndexError, \<lparr>path = p, data = [0x00, 0x61, 0x73, 0x6D, 0x01, 0x00], fpos = 0, rpos = 6\<rparr>)
   \<and> TruncatedInput IndexError"
  by code_simp

subsection \<open>Progress of the instruction decoder\<close>

lemma adv_refl: "adv c c"
  by (simp add: adv_def)

lemma adv_trans: "adv a b \<Longrightarrow> adv b c \<Longrightarrow> adv a c"
  by (auto simp: adv_def)

lemma read_adv: "read n c = (d, c') \<Longrightarrow> adv c c'"
  by (auto simp: read_def adv_def Let_def)

lemma keeps_load: "keeps (load n)"
  by (auto simp: keeps_def load_def split: prod.splits if_splits dest: read_adv)

lemma keeps_byte: "keeps byte"
  using keeps_load [of 1]
  by (auto simp: keeps_def byte_def split: prod.splits sum.splits)

lemma keeps_leb128: "keeps leb128"
  by (auto simp: keeps_def leb128_def split: option.splits prod.splits dest: read_adv)

lemma keeps_leb128u: "keeps leb128u"
  using keeps_leb128
  by (auto simp: keeps_def leb128u_def split: prod.splits sum.splits)

lemma onward_rd: "keeps f \<Longrightarrow> onward rp (rd f)"
  by (auto simp: keeps_def onward_def rd_def split: prod.splits)

lemma onward_reload: "onward rp (rd (reload rp))"
  by (auto simp: onward_def rd_def reload_def load_def read_def adv_def Let_def
      split: prod.splits if_splits)

lemma onward_return: "onward rp (return x)"
  by (simp add: onward_def return_def adv_refl)

lemma onward_raise: "onward rp (raise e)"
  by (simp add: onward_def raise_def)

lemma onward_dprint: "onward rp (dprint d msg)"
  by (auto simp: onward_def dprint_def dprints_def adv_refl split: if_splits)

lemma onward_bind:
  assumes "onward rp m" and "\<And>x. onward rp (f x)"
  shows "onward rp (bind m f)"
proof -
  have "adv (stream s) (stream s')" if le: "rp \<le> rpos (stream s)" and "bind m f s = (Inr r, s')"
    for s r s'
  proof -
    from that obtain x s1 where 1: "m s = (Inr x, s1)" and 2: "f x s1 = (Inr r, s')"
      by (auto simp: bind_def split: prod.splits sum.splits)
    from 1 le assms(1) have a: "adv (stream s) (stream s1)" by (auto simp: onward_def)
    with le have "rp \<le> rpos (stream s1)" by (simp add: adv_def)
    with 2 assms(2) have "adv (stream s1) (stream s')" by (auto simp: onward_def)
    with a show ?thesis by (rule adv_trans)
  qed
  then show ?thesis by (auto simp: onward_def)
qed

lemma onward_for_each:
  assumes "\<And>x. onward rp (body x)"
  shows "onward rp (for_each xs body)"
  by (induction xs) (simp_all add: onward_return onward_bind assms)

lemma onward_if: "onward rp a \<Longrightarrow> onward rp b \<Longrightarrow> onward rp (if c then a else b)"
  by simp

lemma onward_case_sum:
  "(\<And>e. onward rp (f e)) \<Longrightarrow> (\<And>v. onward rp (g v))
     \<Longrightarrow> onward rp (case x of Inl e \<Rightarrow> f e | Inr v \<Rightarrow> g v)"
  by (cases x) simp_all

lemma onward_case_entry:
  "onward rp a \<Longrightarrow> (\<And>ops asm. onward rp (f ops asm)) \<Longrightarrow> (\<And>p. onward rp (g p))
     \<Longrightarrow> onward rp (case ins of Empty \<Rightarrow> a | Ins ops asm \<Rightarrow> f ops asm | Plane p \<Rightarrow> g p)"
  by (cases ins) simp_all

lemma onward_index: "onward rp (index xs i)"
  by (simp add: index_def onward_return onward_raise)

lemma onward_subscript: "onward rp (subscript ins i)"
  by (simp add: subscript_def onward_index onward_raise split: entry.split)

lemma onward_read_valtype: "onward rp read_valtype"
  by (simp add: read_valtype_def onward_bind onward_rd keeps_byte onward_return)

lemma onward_read_reftype: "onward rp read_reftype"
  by (simp add: read_reftype_def onward_bind onward_rd keeps_byte onward_return)

lemmas onward_rules =
  onward_bind onward_reload onward_rd onward_return onward_raise onward_dprint
  onward_for_each onward_if onward_case_sum onward_case_entry onward_index onward_subscript
  onward_read_valtype onward_read_reftype
  keeps_byte keeps_load keeps_leb128 keeps_leb128u

lemma onward_operand_step: "onward rp (operand_step L indent asm0 op)"
  unfolding operand_step_def Let_def
  by (cases op; simp only: operand.case; intro onward_rules)

lemma bind_get_rpos: "bind get_rpos f s = f (rpos (stream s)) s"
  by (simp add: bind_def get_rpos_def)

lemma byte_step:
  assumes "byte c = (Inr x, c')"
  shows "data c' = data c \<and> rpos c' = Suc (rpos c) \<and> rpos c' \<le> length (data c)"
  using assms
  by (auto simp: byte_def load_def read_def Let_def split: if_splits)

lemma byte_then_onward:
  assumes "bind (rd byte) f s = (Inr r, s')" and "\<And>x. onward (rpos (stream s)) (f x)"
  shows "data (stream s') = data (stream s) \<and> rpos (stream s) < rpos (stream s')
         \<and> rpos (stream s') \<le> length (data (stream s))"
proof -
  from assms(1) obtain x s1 where 1: "rd byte s = (Inr x, s1)" and 2: "f x s1 = (Inr r, s')"
    by (auto simp: bind_def split: prod.splits sum.splits)
  from 1 have b: "data (stream s1) = data (stream s) \<and> rpos (stream s1) = Suc (rpos (stream s))
      \<and> rpos (stream s1) \<le> length (data (stream s))"
    by (auto simp: rd_def split: prod.splits dest: byte_step)
  then have "rpos (stream s) \<le> rpos (stream s1)" by simp
  with 2 assms(2) have "adv (stream s1) (stream s')" by (auto simp: onward_def)
  with b show ?thesis by (auto simp: adv_def)
qed

lemma instruction_advances:
  assumes "instruction L b l st s = (Inr asm, s')"
  shows "data (stream s') = data (stream s) \<and> rpos (stream s) < rpos (stream s')
         \<and> rpos (stream s') \<le> length (data (stream s))"
  using assms unfolding instruction_def Let_def bind_get_rpos
  by (rule byte_then_onward) (intro onward_rules onward_operand_step)

subsection \<open>The expression walker stops\<close>

lemma expression_fuel_sound:
  "expression_fuel n L b l st s = Some r \<Longrightarrow> expression L b l st s = Some r"
proof (induction n arbitrary: l s r)
  case 0
  then show ?case by simp
next
  case (Suc n)
  show ?case
  proof (cases "remain (stream s) > 0")
    case False
    with Suc.prems show ?thesis by (subst expression.simps) simp
  next
    case True
    obtain x s1 where i: "instruction L b l st s = (x, s1)" by (cases "instruction L b l st s")
    show ?thesis
    proof (cases x)
      case (Inl e)
      with Suc.prems True i show ?thesis by (subst expression.simps) simp
    next
      case (Inr asm)
      show ?thesis
      proof (cases "asm = ''end''")
        case True
        with Suc.prems \<open>remain (stream s) > 0\<close> i Inr show ?thesis
          by (subst expression.simps) simp
      next
        case notend: False
        show ?thesis
        proof (cases "asm \<in> {''block'', ''loop'', ''if''}")
          case False
          with Suc.prems True i Inr notend
          have "expression_fuel n L b l st s1 = Some r" by simp
          then have "expression L b l st s1 = Some r" by (rule Suc.IH)
          with True i Inr notend False show ?thesis by (subst expression.simps) simp
        next
          case blk: True
          with Suc.prems True i Inr notend
          obtain r1 where 1: "expression_fuel n L b (l + 1) st s1 = Some r1"
            and 2: "(case r1 of (Inl e, s'') \<Rightarrow> Some (Inl e, s'')
                     | (Inr u, s'') \<Rightarrow> expression_fuel n L b l st s'') = Some r"
            by (auto simp: bind_eq_Some_conv)
          from 1 have n1: "expression L b (l + 1) st s1 = Some r1" by (rule Suc.IH)
          have n2: "(case r1 of (Inl e, s'') \<Rightarrow> Some (Inl e, s'')
                     | (Inr u, s'') \<Rightarrow> expression L b l st s'') = Some r"
            using 2 by (auto split: prod.splits sum.splits intro: Suc.IH)
          from True i Inr notend blk n1 n2 show ?thesis
            by (subst expression.simps) simp
        qed
      qed
    qed
  qed
qed

lemma expression_fuel_enough:
  "remain (stream s) < n \<Longrightarrow>
     \<exists>r s'. expression_fuel n L b l st s = Some (r, s')
       \<and> (r = Inr () \<longrightarrow> remain (stream s') \<le> remain (stream s))"
proof (induction n arbitrary: l s)
  case 0
  then show ?case by simp
next
  case (Suc n)
  show ?case
  proof (cases "remain (stream s) > 0")
    case False
    then show ?thesis by simp
  next
    case True
    obtain x s1 where i: "instruction L b l st s = (x, s1)" by (cases "instruction L b l st s")
    show ?thesis
    proof (cases x)
      case (Inl e)
      with True i show ?thesis by simp
    next
      case (Inr asm)
      with i have "data (stream s1) = data (stream s) \<and> rpos (stream s) < rpos (stream s1)
         \<and> rpos (stream s1) \<le> length (data (stream s))"
        by (auto dest: instruction_advances)
      with True have less: "remain (stream s1) < remain (stream s)"
        by (auto simp: remain_def)
      with Suc.prems have small: "remain (stream s1) < n" by simp
      show ?thesis
      proof (cases "asm = ''end''")
        case True
        with \<open>remain (stream s) > 0\<close> i Inr less show ?thesis by simp
      next
        case notend: False
        show ?thesis
        proof (cases "asm \<in> {''block'', ''loop'', ''if''}")
          case False
          from Suc.IH [OF small, of l] obtain r s' where
            "expression_fuel n L b l st s1 = Some (r, s')"
            "r = Inr () \<longrightarrow> remain (stream s') \<le> remain (stream s1)" by blast
          with True i Inr notend False less show ?thesis by auto
        next
          case blk: True
          from Suc.IH [OF small, of "l + 1"] obtain r1 s2 where
            1: "expression_fuel n L b (l + 1) st s1 = Some (r1, s2)"
            and n1: "r1 = Inr () \<longrightarrow> remain (stream s2) \<le> remain (stream s1)" by blast
          show ?thesis
          proof (cases r1)
            case (Inl e)
            with True i Inr notend blk 1 show ?thesis by simp
          next
            case r1: (Inr u)
            with n1 small have "remain (stream s2) < n" by simp
            from Suc.IH [OF this, of l] obtain r s' where
              2: "expression_fuel n L b l st s2 = Some (r, s')"
              and n2: "r = Inr () \<longrightarrow> remain (stream s') \<le> remain (stream s2)" by blast
            from n1 r1 n2 less have "r = Inr () \<longrightarrow> remain (stream s') \<le> remain (stream s)"
              by auto
            with True i Inr notend blk 1 r1 2 show ?thesis by simp
          qed
        qed
      qed
    qed
  qed
qed

text \<open>
  Claim C10: the expression walker returns on every input. Every successfully decoded
  instruction moves the cursor forward by at least one byte within the same buffer, so
  the recursive calls and the later turns of the loop work on a strictly shorter rest; a
  budget of one more than the number of remaining bytes for the turns and nested calls
  together is never used up, and the walk with that budget is the walk.
\<close>

theorem expression_terminates:
  "(\<exists>r. expression L b l st s = Some r)
   \<and> expression_fuel (Suc (remain (stream s))) L b l st s = expression L b l st s
   \<and> (\<forall>asm s'. instruction L b l st s = (Inr asm, s') \<longrightarrow>
         data (stream s') = data (stream s) \<and> rpos (stream s) < rpos (stream s')
         \<and> rpos (stream s') \<le> length (data (stream s)))"
proof -
  obtain r s' where f: "expression_fuel (Suc (remain (stream s))) L b l st s = Some (r, s')"
    using expression_fuel_enough [of s "Suc (remain (stream s))" L b l st] by auto
  then have e: "expression L b l st s = Some (r, s')" by (rule expression_fuel_sound)
  from f e instruction_advances show ?thesis by auto
qed

lemma block_step:
  "instruction ascii_lib 1 0 2
       \<lparr>stream = \<lparr>path = ''m.wasm'', data = [0x02, 0x40, 0x01], fpos = 30, rpos = 0\<rparr>,
        out = [], BYTESW = 8\<rparr>
     = (Inr ''block'',
       \<lparr>stream = \<lparr>path = ''m.wasm'', data = [0x02, 0x40, 0x01], fpos = 30, rpos = 2\<rparr>,
        out = [Dprint (Some \<lparr>path = ''m.wasm'', data = [0x02], fpos = 30, rpos = 0\<rparr>) [''  block''],
               Dprint (Some \<lparr>path = ''m.wasm'', data = [0x40], fpos = 31, rpos = 0\<rparr>)
                 [''    --> (empty)'']],
        BYTESW = 8\<rparr>)"
  by code_simp

theorem expression_terminates_witness:
  "instruction ascii_lib 1 0 2
       \<lparr>stream = \<lparr>path = ''m.wasm'', data = [0x02, 0x40, 0x01], fpos = 30, rpos = 0\<rparr>,
        out = [], BYTESW = 8\<rparr>
     = (Inr ''block'',
       \<lparr>stream = \<lparr>path = ''m.wasm'', data = [0x02, 0x40, 0x01], fpos = 30, rpos = 2\<rparr>,
        out = [Dprint (Some \<lparr>path = ''m.wasm'', data = [0x02], fpos = 30, rpos = 0\<rparr>) [''  block''],
               Dprint (Some \<lparr>path = ''m.wasm'', data = [0x40], fpos = 31, rpos = 0\<rparr>)
                 [''    --> (empty)'']],
        BYTESW = 8\<rparr>)
   \<and> (0::nat) < 2
   \<and> expression_fuel 4 ascii_lib 1 0 2
       \<lparr>stream = \<lparr>path = ''m.wasm'', data = [0x02, 0x40, 0x01], fpos = 30, rpos = 0\<rparr>,
        out = [], BYTESW = 8\<rparr>
     = expression ascii_lib 1 0 2
       \<lparr>stream = \<lparr>path = ''m.wasm'', data = [0x02, 0x40, 0x01], fpos = 30, rpos = 0\<rparr>,
        out = [], BYTESW = 8\<rparr>"
  using expression_terminates [of ascii_lib 1 0 2
      "\<lparr>stream = \<lparr>path = ''m.wasm'', data = [0x02, 0x40, 0x01], fpos = 30, rpos = 0\<rparr>,
        out = [], BYTESW = 8\<rparr>"] block_step
  by (simp add: remain_def numeral_eq_Suc del: expression_fuel.simps)

lemma expression_at_end:
  "remain (stream s) = 0 \<Longrightarrow> expression L b l st s = Some (Inr (), s)"
  by (subst expression.simps) simp

lemma unwind_exhausted:
  "remain (stream s) = 0 \<Longrightarrow> unwind L b l st d s = Some (Inr (), s)"
  by (induction d) (simp_all add: expression_at_end)

lemma unwind_failed:
  assumes "0 < remain (stream s)" and "instruction L b (l + int d) st s = (Inl e, s')"
  shows "unwind L b l st d s = Some (Inl e, s')"
proof -
  from assms have "expression L b (l + int d) st s = Some (Inl e, s')"
    by (subst expression.simps) simp
  then show ?thesis by (cases d) simp_all
qed

lemma unwind_step:
  assumes r: "0 < remain (stream s)"
    and i: "instruction L b (l + int d) st s = (Inr asm, s1)"
    and open_scope: "\<not> (asm = ''end'' \<and> d = 0)"
  shows "unwind L b l st d s = unwind L b l st (depth_after asm d) s1"
proof (cases "asm = ''end''")
  case True
  with open_scope obtain d0 where d: "d = Suc d0" by (cases d) auto
  from r i True have "expression L b (l + int d) st s = Some (Inr (), s1)"
    by (subst expression.simps) simp
  with d True show ?thesis by (simp add: depth_after_def)
next
  case notend: False
  show ?thesis
  proof (cases "asm \<in> {''block'', ''loop'', ''if''}")
    case False
    from r i notend False
    have e: "expression L b (l + int d) st s = expression L b (l + int d) st s1"
      by (subst expression.simps) simp
    from notend False have "depth_after asm d = d" by (simp add: depth_after_def)
    with e show ?thesis by (cases d) simp_all
  next
    case True
    from r i notend True
    have e: "expression L b (l + int d) st s =
        Option.bind (expression L b (l + int d + 1) st s1)
          (\<lambda>r. case r of
                 (Inl e, s'') \<Rightarrow> Some (Inl e, s'')
               | (Inr u, s'') \<Rightarrow> expression L b (l + int d) st s'')"
      by (subst expression.simps) simp
    from notend True have da: "depth_after asm d = Suc d" by (simp add: depth_after_def)
    have lv: "l + int (Suc d) = l + int d + 1" by simp
    show ?thesis
    proof (cases d)
      case 0
      have e0: "expression L b l st s =
          Option.bind (expression L b (l + 1) st s1)
            (\<lambda>r. case r of
                   (Inl e, s'') \<Rightarrow> Some (Inl e, s'')
                 | (Inr u, s'') \<Rightarrow> expression L b l st s'')"
        using r i notend True unfolding 0 by (subst expression.simps) simp
      show ?thesis
        unfolding da
        by (cases "expression L b (l + 1) st s1")
          (auto simp: 0 e0 split: prod.splits sum.splits)
    next
      case (Suc d0)
      define k where "k = l + int (Suc d0)"
      have k0: "l + int (Suc d0) = k" and k1: "l + int (Suc (Suc d0)) = k + 1"
        by (simp_all add: k_def)
      from da have da': "depth_after asm (Suc d0) = Suc (Suc d0)"
        by (simp add: Suc)
      from i have i': "instruction L b k st s = (Inr asm, s1)"
        by (simp add: k_def Suc)
      from r i' notend True
      have e': "expression L b k st s =
          Option.bind (expression L b (k + 1) st s1)
            (\<lambda>r. case r of
                   (Inl e, s'') \<Rightarrow> Some (Inl e, s'')
                 | (Inr u, s'') \<Rightarrow> expression L b k st s'')"
        by (subst expression.simps) simp
      show ?thesis
      proof (cases "expression L b (k + 1) st s1")
        case None
        show ?thesis
          unfolding Suc da' unwind.simps k1 k0 e' None by simp
      next
        case (Some x)
        obtain x1 s2 where x: "x = (x1, s2)" by (cases x)
        show ?thesis
        proof (cases x1)
          case (Inl err)
          show ?thesis
            unfolding Suc da' unwind.simps k1 k0 e' Some x Inl by simp
        next
          case (Inr u)
          show ?thesis
            unfolding Suc da' unwind.simps k1 k0 e' Some x Inr by simp
        qed
      qed
    qed
  qed
qed

lemma decoded_unwind:
  "decoded L b l st n d s = Some (d', s1) \<Longrightarrow> unwind L b l st d s = unwind L b l st d' s1"
proof (induction n arbitrary: d s)
  case 0
  then show ?case by simp
next
  case (Suc n)
  from Suc.prems have r: "0 < remain (stream s)" by (simp split: if_splits)
  obtain x s2 where i: "instruction L b (l + int d) st s = (x, s2)"
    by (cases "instruction L b (l + int d) st s")
  with Suc.prems r obtain asm where x: "x = Inr asm" by (cases x) auto
  from Suc.prems r i x have o: "\<not> (asm = ''end'' \<and> d = 0)"
    and rest: "decoded L b l st n (depth_after asm d) s2 = Some (d', s1)"
    by (auto split: if_splits)
  from r i x o have "unwind L b l st d s = unwind L b l st (depth_after asm d) s2"
    by (auto intro: unwind_step)
  also from rest have "\<dots> = unwind L b l st d' s1" by (rule Suc.IH)
  finally show ?case .
qed

text \<open>
  Claim C9: when the cursor is exhausted before an \<^verbatim>\<open>end\<close> has been decoded at the current
  depth, the walker returns normally. Whatever the number of instructions and however they
  nest: if the bytes from \<open>s\<close> decode as \<open>n\<close> instructions, none of them an \<^verbatim>\<open>end\<close> at the depth
  of the walker, and no byte remains after them, then the walker returns normally with
  the state after the last of them; no error is raised for the missing \<^verbatim>\<open>end\<close>, at any depth.
  The walker returns an error only where an instruction decoded with bytes remaining raises
  it (a byte sequence that ends inside an instruction is that instruction's error), and it
  returns after an \<^verbatim>\<open>end\<close> at its own depth.
\<close>

theorem expression_exhausted:
  assumes "decoded L b l st n 0 s = Some (d, s1)"
  shows "(remain (stream s1) = 0 \<longrightarrow> expression L b l st s = Some (Inr (), s1))
       \<and> (0 < remain (stream s1) \<and> instruction L b (l + int d) st s1 = (Inl e, s')
            \<longrightarrow> expression L b l st s = Some (Inl e, s'))
       \<and> (0 < remain (stream s1) \<and> d = 0 \<and> instruction L b l st s1 = (Inr ''end'', s')
            \<longrightarrow> expression L b l st s = Some (Inr (), s'))"
proof -
  from assms have u: "expression L b l st s = unwind L b l st d s1"
    using decoded_unwind [of L b l st n 0 s d s1] by simp
  have "expression L b l st s1 = Some (Inr (), s')"
    if "0 < remain (stream s1)" and "instruction L b l st s1 = (Inr ''end'', s')"
    using that by (subst expression.simps) simp
  with u show ?thesis
    by (auto simp: unwind_exhausted unwind_failed)
qed

theorem expression_exhausted_witness:
  "decoded ascii_lib 1 0 2 3 0
       \<lparr>stream = \<lparr>path = ''m.wasm'', data = [0x02, 0x40, 0x01, 0x01], fpos = 30, rpos = 0\<rparr>,
            out = [], BYTESW = 8\<rparr>
     = Some (1,
       \<lparr>stream = \<lparr>path = ''m.wasm'', data = [0x02, 0x40, 0x01, 0x01], fpos = 30, rpos = 4\<rparr>,
            out = [Dprint (Some \<lparr>path = ''m.wasm'', data = [0x02], fpos = 30, rpos = 0\<rparr>) [''  block''],
              Dprint (Some \<lparr>path = ''m.wasm'', data = [0x40], fpos = 31, rpos = 0\<rparr>) [''    --> (empty)''],
              Dprint (Some \<lparr>path = ''m.wasm'', data = [0x01], fpos = 32, rpos = 0\<rparr>) [''    nop''],
              Dprint (Some \<lparr>path = ''m.wasm'', data = [0x01], fpos = 33, rpos = 0\<rparr>) [''    nop'']], BYTESW = 8\<rparr>)
   \<and> remain (stream
       \<lparr>stream = \<lparr>path = ''m.wasm'', data = [0x02, 0x40, 0x01, 0x01], fpos = 30, rpos = 4\<rparr>,
            out = [Dprint (Some \<lparr>path = ''m.wasm'', data = [0x02], fpos = 30, rpos = 0\<rparr>) [''  block''],
              Dprint (Some \<lparr>path = ''m.wasm'', data = [0x40], fpos = 31, rpos = 0\<rparr>) [''    --> (empty)''],
              Dprint (Some \<lparr>path = ''m.wasm'', data = [0x01], fpos = 32, rpos = 0\<rparr>) [''    nop''],
              Dprint (Some \<lparr>path = ''m.wasm'', data = [0x01], fpos = 33, rpos = 0\<rparr>) [''    nop'']], BYTESW = 8\<rparr>) = 0
   \<and> expression ascii_lib 1 0 2
       \<lparr>stream = \<lparr>path = ''m.wasm'', data = [0x02, 0x40, 0x01, 0x01], fpos = 30, rpos = 0\<rparr>,
            out = [], BYTESW = 8\<rparr>
     = Some (Inr (),
       \<lparr>stream = \<lparr>path = ''m.wasm'', data = [0x02, 0x40, 0x01, 0x01], fpos = 30, rpos = 4\<rparr>,
            out = [Dprint (Some \<lparr>path = ''m.wasm'', data = [0x02], fpos = 30, rpos = 0\<rparr>) [''  block''],
              Dprint (Some \<lparr>path = ''m.wasm'', data = [0x40], fpos = 31, rpos = 0\<rparr>) [''    --> (empty)''],
              Dprint (Some \<lparr>path = ''m.wasm'', data = [0x01], fpos = 32, rpos = 0\<rparr>) [''    nop''],
              Dprint (Some \<lparr>path = ''m.wasm'', data = [0x01], fpos = 33, rpos = 0\<rparr>) [''    nop'']], BYTESW = 8\<rparr>)
   \<and> decoded ascii_lib 1 0 2 1 0
       \<lparr>stream = \<lparr>path = ''m.wasm'', data = [0x01, 0x41], fpos = 30, rpos = 0\<rparr>,
            out = [], BYTESW = 8\<rparr>
     = Some (0,
       \<lparr>stream = \<lparr>path = ''m.wasm'', data = [0x01, 0x41], fpos = 30, rpos = 1\<rparr>,
            out = [Dprint (Some \<lparr>path = ''m.wasm'', data = [0x01], fpos = 30, rpos = 0\<rparr>) [''  nop'']], BYTESW = 8\<rparr>)
   \<and> instruction ascii_lib 1 0 2
       \<lparr>stream = \<lparr>path = ''m.wasm'', data = [0x01, 0x41], fpos = 30, rpos = 1\<rparr>,
            out = [Dprint (Some \<lparr>path = ''m.wasm'', data = [0x01], fpos = 30, rpos = 0\<rparr>) [''  nop'']], BYTESW = 8\<rparr>
     = (Inl IndexError,
       \<lparr>stream = \<lparr>path = ''m.wasm'', data = [0x01, 0x41], fpos = 30, rpos = 2\<rparr>,
            out = [Dprint (Some \<lparr>path = ''m.wasm'', data = [0x01], fpos = 30, rpos = 0\<rparr>) [''  nop''],
              Dprint (Some \<lparr>path = ''m.wasm'', data = [0x41], fpos = 31, rpos = 0\<rparr>) [''  i32.const'']], BYTESW = 8\<rparr>)
   \<and> expression ascii_lib 1 0 2
       \<lparr>stream = \<lparr>path = ''m.wasm'', data = [0x01, 0x41], fpos = 30, rpos = 0\<rparr>,
            out = [], BYTESW = 8\<rparr>
     = Some (Inl IndexError,
       \<lparr>stream = \<lparr>path = ''m.wasm'', data = [0x01, 0x41], fpos = 30, rpos = 2\<rparr>,
            out = [Dprint (Some \<lparr>path = ''m.wasm'', data = [0x01], fpos = 30, rpos = 0\<rparr>) [''  nop''],
              Dprint (Some \<lparr>path = ''m.wasm'', data = [0x41], fpos = 31, rpos = 0\<rparr>) [''  i32.const'']], BYTESW = 8\<rparr>)
   \<and> decoded ascii_lib 1 0 2 1 0
       \<lparr>stream = \<lparr>path = ''m.wasm'', data = [0x01, 0x0B, 0x01], fpos = 30, rpos = 0\<rparr>,
            out = [], BYTESW = 8\<rparr>
     = Some (0,
       \<lparr>stream = \<lparr>path = ''m.wasm'', data = [0x01, 0x0B, 0x01], fpos = 30, rpos = 1\<rparr>,
            out = [Dprint (Some \<lparr>path = ''m.wasm'', data = [0x01], fpos = 30, rpos = 0\<rparr>) [''  nop'']], BYTESW = 8\<rparr>)
   \<and> instruction ascii_lib 1 0 2
       \<lparr>stream = \<lparr>path = ''m.wasm'', data = [0x01, 0x0B, 0x01], fpos = 30, rpos = 1\<rparr>,
            out = [Dprint (Some \<lparr>path = ''m.wasm'', data = [0x01], fpos = 30, rpos = 0\<rparr>) [''  nop'']], BYTESW = 8\<rparr>
     = (Inr ''end'',
       \<lparr>stream = \<lparr>path = ''m.wasm'', data = [0x01, 0x0B, 0x01], fpos = 30, rpos = 2\<rparr>,
            out = [Dprint (Some \<lparr>path = ''m.wasm'', data = [0x01], fpos = 30, rpos = 0\<rparr>) [''  nop''],
              Dprint (Some \<lparr>path = ''m.wasm'', data = [0x0B], fpos = 31, rpos = 0\<rparr>) [''  end'']], BYTESW = 8\<rparr>)
   \<and> expression ascii_lib 1 0 2
       \<lparr>stream = \<lparr>path = ''m.wasm'', data = [0x01, 0x0B, 0x01], fpos = 30, rpos = 0\<rparr>,
            out = [], BYTESW = 8\<rparr>
     = Some (Inr (),
       \<lparr>stream = \<lparr>path = ''m.wasm'', data = [0x01, 0x0B, 0x01], fpos = 30, rpos = 2\<rparr>,
            out = [Dprint (Some \<lparr>path = ''m.wasm'', data = [0x01], fpos = 30, rpos = 0\<rparr>) [''  nop''],
              Dprint (Some \<lparr>path = ''m.wasm'', data = [0x0B], fpos = 31, rpos = 0\<rparr>) [''  end'']], BYTESW = 8\<rparr>)"
proof -
  have a: "decoded ascii_lib 1 0 2 3 0
       \<lparr>stream = \<lparr>path = ''m.wasm'', data = [0x02, 0x40, 0x01, 0x01], fpos = 30, rpos = 0\<rparr>,
            out = [], BYTESW = 8\<rparr>
     = Some (1,
       \<lparr>stream = \<lparr>path = ''m.wasm'', data = [0x02, 0x40, 0x01, 0x01], fpos = 30, rpos = 4\<rparr>,
            out = [Dprint (Some \<lparr>path = ''m.wasm'', data = [0x02], fpos = 30, rpos = 0\<rparr>) [''  block''],
              Dprint (Some \<lparr>path = ''m.wasm'', data = [0x40], fpos = 31, rpos = 0\<rparr>) [''    --> (empty)''],
              Dprint (Some \<lparr>path = ''m.wasm'', data = [0x01], fpos = 32, rpos = 0\<rparr>) [''    nop''],
              Dprint (Some \<lparr>path = ''m.wasm'', data = [0x01], fpos = 33, rpos = 0\<rparr>) [''    nop'']], BYTESW = 8\<rparr>)"
    by code_simp
  have b: "decoded ascii_lib 1 0 2 1 0
       \<lparr>stream = \<lparr>path = ''m.wasm'', data = [0x01, 0x41], fpos = 30, rpos = 0\<rparr>,
            out = [], BYTESW = 8\<rparr>
     = Some (0,
       \<lparr>stream = \<lparr>path = ''m.wasm'', data = [0x01, 0x41], fpos = 30, rpos = 1\<rparr>,
            out = [Dprint (Some \<lparr>path = ''m.wasm'', data = [0x01], fpos = 30, rpos = 0\<rparr>) [''  nop'']], BYTESW = 8\<rparr>)"
    by code_simp
  have bi: "instruction ascii_lib 1 0 2
       \<lparr>stream = \<lparr>path = ''m.wasm'', data = [0x01, 0x41], fpos = 30, rpos = 1\<rparr>,
            out = [Dprint (Some \<lparr>path = ''m.wasm'', data = [0x01], fpos = 30, rpos = 0\<rparr>) [''  nop'']], BYTESW = 8\<rparr>
     = (Inl IndexError,
       \<lparr>stream = \<lparr>path = ''m.wasm'', data = [0x01, 0x41], fpos = 30, rpos = 2\<rparr>,
            out = [Dprint (Some \<lparr>path = ''m.wasm'', data = [0x01], fpos = 30, rpos = 0\<rparr>) [''  nop''],
              Dprint (Some \<lparr>path = ''m.wasm'', data = [0x41], fpos = 31, rpos = 0\<rparr>) [''  i32.const'']], BYTESW = 8\<rparr>)"
    by code_simp
  have c: "decoded ascii_lib 1 0 2 1 0
       \<lparr>stream = \<lparr>path = ''m.wasm'', data = [0x01, 0x0B, 0x01], fpos = 30, rpos = 0\<rparr>,
            out = [], BYTESW = 8\<rparr>
     = Some (0,
       \<lparr>stream = \<lparr>path = ''m.wasm'', data = [0x01, 0x0B, 0x01], fpos = 30, rpos = 1\<rparr>,
            out = [Dprint (Some \<lparr>path = ''m.wasm'', data = [0x01], fpos = 30, rpos = 0\<rparr>) [''  nop'']], BYTESW = 8\<rparr>)"
    by code_simp
  have ci: "instruction ascii_lib 1 0 2
       \<lparr>stream = \<lparr>path = ''m.wasm'', data = [0x01, 0x0B, 0x01], fpos = 30, rpos = 1\<rparr>,
            out = [Dprint (Some \<lparr>path = ''m.wasm'', data = [0x01], fpos = 30, rpos = 0\<rparr>) [''  nop'']], BYTESW = 8\<rparr>
     = (Inr ''end'',
       \<lparr>stream = \<lparr>path = ''m.wasm'', data = [0x01, 0x0B, 0x01], fpos = 30, rpos = 2\<rparr>,
            out = [Dprint (Some \<lparr>path = ''m.wasm'', data = [0x01], fpos = 30, rpos = 0\<rparr>) [''  nop''],
              Dprint (Some \<lparr>path = ''m.wasm'', data = [0x0B], fpos = 31, rpos = 0\<rparr>) [''  end'']], BYTESW = 8\<rparr>)"
    by code_simp
  show ?thesis
    using a b bi c ci
      expression_exhausted [OF a]
      expression_exhausted [OF b, where e = IndexError and s' = "\<lparr>stream = \<lparr>path = ''m.wasm'', data = [0x01, 0x41], fpos = 30, rpos = 2\<rparr>,
                  out = [Dprint (Some \<lparr>path = ''m.wasm'', data = [0x01], fpos = 30, rpos = 0\<rparr>) [''  nop''],
                    Dprint (Some \<lparr>path = ''m.wasm'', data = [0x41], fpos = 31, rpos = 0\<rparr>) [''  i32.const'']], BYTESW = 8\<rparr>"]
      expression_exhausted [OF c, where s' = "\<lparr>stream = \<lparr>path = ''m.wasm'', data = [0x01, 0x0B, 0x01], fpos = 30, rpos = 2\<rparr>,
                  out = [Dprint (Some \<lparr>path = ''m.wasm'', data = [0x01], fpos = 30, rpos = 0\<rparr>) [''  nop''],
                    Dprint (Some \<lparr>path = ''m.wasm'', data = [0x0B], fpos = 31, rpos = 0\<rparr>) [''  end'']], BYTESW = 8\<rparr>"]
    by (simp add: remain_def)
qed

text \<open>The whole walk of \<^verbatim>\<open>block (empty); nop\<close> with no \<^verbatim>\<open>end\<close> at either depth: both the inner
  and the outer walker return normally at the end of the bytes.\<close>

lemma unterminated_block_walk:
  "expression ascii_lib 1 0 2
       \<lparr>stream = \<lparr>path = ''m.wasm'', data = [0x02, 0x40, 0x01], fpos = 30, rpos = 0\<rparr>,
        out = [], BYTESW = 8\<rparr>
     = Some (Inr (),
       \<lparr>stream = \<lparr>path = ''m.wasm'', data = [0x02, 0x40, 0x01], fpos = 30, rpos = 3\<rparr>,
        out = [Dprint (Some \<lparr>path = ''m.wasm'', data = [0x02], fpos = 30, rpos = 0\<rparr>) [''  block''],
               Dprint (Some \<lparr>path = ''m.wasm'', data = [0x40], fpos = 31, rpos = 0\<rparr>)
                 [''    --> (empty)''],
               Dprint (Some \<lparr>path = ''m.wasm'', data = [0x01], fpos = 32, rpos = 0\<rparr>) [''    nop'']],
        BYTESW = 8\<rparr>)"
  by code_simp

subsection \<open>Unknown type codes\<close>

text \<open>
  Claim C4, as amended: where the type is decoded by \<^verbatim>\<open>value_type\<close> (function-type parameter
  and result lists, globals, global imports) a byte outside the value-type table fails
  with \<^verbatim>\<open>unknown valtype\<close>, and where it is decoded by \<^verbatim>\<open>reference_type\<close> (tables, table imports)
  a code outside the reference-type table fails with \<^verbatim>\<open>unknown reftype\<close>. Where it is
  decoded by \<^verbatim>\<open>read_valtype\<close>, \<^verbatim>\<open>read_reftype\<close> or \<^verbatim>\<open>get_valtype\<close> (the \<^verbatim>\<open>t+\<close> operand of
  \<^verbatim>\<open>select\<close>, local declarations, the type of an element segment in expression form, the
  \<^verbatim>\<open>ref\<close> operand, a block type whose first byte has bit 6 set) a code outside the table
  does not fail: it is annotated \<^verbatim>\<open>(valtype:0xNN)\<close> or \<^verbatim>\<open>(reftype:0xNN)\<close> and decoding goes on.
\<close>

theorem unknown_type_codes:
  assumes "BYTESW s \<noteq> 0"
  shows "(byte (stream s) = (Inr code, c') \<and> VALTYPE (val code) = None \<longrightarrow>
            value_type pfx s
              = (Inl (NotImplementedError (''unknown valtype: 0x'' @ hex02 (val code))),
                 s\<lparr>stream := c', out := out s @ [Dprint (Some (dat code)) [pfx @ ''None'']]\<rparr>))
       \<and> (leb128u (stream s) = (Inr code, c') \<and> REFTYPE (val code) = None \<longrightarrow>
            reference_type pfx s
              = (Inl (NotImplementedError (''unknown reftype: 0x'' @ hex02 (val code))),
                 s\<lparr>stream := c', out := out s @ [Dprint (Some (dat code)) [pfx @ ''None'']]\<rparr>))
       \<and> (byte (stream s) = (Inr code, c') \<and> VALTYPE (val code) = None \<longrightarrow>
            read_valtype s
              = (Inr \<lparr>val = ''(valtype:0x'' @ hex02 (val code) @ '')'', dat = dat code\<rparr>,
                 s\<lparr>stream := c'\<rparr>))
       \<and> (byte (stream s) = (Inr code, c') \<and> REFTYPE (val code) = None \<longrightarrow>
            read_reftype s
              = (Inr \<lparr>val = ''(reftype:0x'' @ hex02 (val code) @ '')'', dat = dat code\<rparr>,
                 s\<lparr>stream := c'\<rparr>))
       \<and> (leb128 (stream s) = (Inr leb, c') \<and> uint (data leb ! 0) AND 0x40 \<noteq> 0
            \<and> VALTYPE (uint (data leb ! 0)) = None \<and> uint (data leb ! 0) \<noteq> 0x40 \<longrightarrow>
            operand_step L indent asm0 (S ''bt'') s
              = (Inr (),
                 s\<lparr>stream := c',
                   out := out s @ [Dprint (Some leb)
                     [indent @ ''(valtype:0x'' @ hex02 (uint (data leb ! 0)) @ '')'']]\<rparr>))"
proof -
  have 1: "byte (stream s) = (Inr code, c') \<and> VALTYPE (val code) = None \<longrightarrow>
            value_type pfx s
              = (Inl (NotImplementedError (''unknown valtype: 0x'' @ hex02 (val code))),
                 s\<lparr>stream := c', out := out s @ [Dprint (Some (dat code)) [pfx @ ''None'']]\<rparr>)"
    using assms
    by (simp add: value_type_def bind_def rd_def dprint_def dprints_def raise_def str_opt_def)
  have 2: "leb128u (stream s) = (Inr code, c') \<and> REFTYPE (val code) = None \<longrightarrow>
            reference_type pfx s
              = (Inl (NotImplementedError (''unknown reftype: 0x'' @ hex02 (val code))),
                 s\<lparr>stream := c', out := out s @ [Dprint (Some (dat code)) [pfx @ ''None'']]\<rparr>)"
    using assms
    by (simp add: reference_type_def bind_def rd_def dprint_def dprints_def raise_def str_opt_def)
  have 3: "byte (stream s) = (Inr code, c') \<and> VALTYPE (val code) = None \<longrightarrow>
            read_valtype s
              = (Inr \<lparr>val = ''(valtype:0x'' @ hex02 (val code) @ '')'', dat = dat code\<rparr>,
                 s\<lparr>stream := c'\<rparr>)"
    by (simp add: read_valtype_def bind_def rd_def return_def get_valtype_def)
  have 4: "byte (stream s) = (Inr code, c') \<and> REFTYPE (val code) = None \<longrightarrow>
            read_reftype s
              = (Inr \<lparr>val = ''(reftype:0x'' @ hex02 (val code) @ '')'', dat = dat code\<rparr>,
                 s\<lparr>stream := c'\<rparr>)"
    by (simp add: read_reftype_def bind_def rd_def return_def get_reftype_def)
  have 5: "leb128 (stream s) = (Inr leb, c') \<and> uint (data leb ! 0) AND 0x40 \<noteq> 0
            \<and> VALTYPE (uint (data leb ! 0)) = None \<and> uint (data leb ! 0) \<noteq> 0x40 \<longrightarrow>
            operand_step L indent asm0 (S ''bt'') s
              = (Inr (),
                 s\<lparr>stream := c',
                   out := out s @ [Dprint (Some leb)
                     [indent @ ''(valtype:0x'' @ hex02 (uint (data leb ! 0)) @ '')'']]\<rparr>)"
    using assms
    by (simp add: operand_step_def bind_def rd_def return_def get_valtype_def dprint_def
        dprints_def Let_def)
  from 1 2 3 4 5 show ?thesis by blast
qed

lemma VALTYPE_0x41: "VALTYPE 0x41 = None" "REFTYPE 0x41 = None"
  by (simp_all add: VALTYPE_def NUMTYPE_def VECTYPE_def REFTYPE_def)

theorem unknown_type_codes_witness:
  "BYTESW \<lparr>stream = \<lparr>path = ''m.wasm'', data = [0x41], fpos = 30, rpos = 0\<rparr>, out = [], BYTESW = 8\<rparr> \<noteq> 0
   \<and> byte \<lparr>path = ''m.wasm'', data = [0x41], fpos = 30, rpos = 0\<rparr>
       = (Inr \<lparr>val = 0x41, dat = \<lparr>path = ''m.wasm'', data = [0x41], fpos = 30, rpos = 0\<rparr>\<rparr>,
          \<lparr>path = ''m.wasm'', data = [0x41], fpos = 30, rpos = 1\<rparr>)
   \<and> VALTYPE 0x41 = None
   \<and> value_type ''  '' \<lparr>stream = \<lparr>path = ''m.wasm'', data = [0x41], fpos = 30, rpos = 0\<rparr>, out = [], BYTESW = 8\<rparr>
       = (Inl (NotImplementedError (''unknown valtype: 0x'' @ hex02 0x41)),
          \<lparr>stream = \<lparr>path = ''m.wasm'', data = [0x41], fpos = 30, rpos = 1\<rparr>,
           out = [Dprint (Some \<lparr>path = ''m.wasm'', data = [0x41], fpos = 30, rpos = 0\<rparr>) [''  None'']],
           BYTESW = 8\<rparr>)
   \<and> read_valtype \<lparr>stream = \<lparr>path = ''m.wasm'', data = [0x41], fpos = 30, rpos = 0\<rparr>, out = [], BYTESW = 8\<rparr>
       = (Inr \<lparr>val = ''(valtype:0x'' @ hex02 0x41 @ '')'',
               dat = \<lparr>path = ''m.wasm'', data = [0x41], fpos = 30, rpos = 0\<rparr>\<rparr>,
          \<lparr>stream = \<lparr>path = ''m.wasm'', data = [0x41], fpos = 30, rpos = 1\<rparr>, out = [], BYTESW = 8\<rparr>)
   \<and> hex02 0x41 = ''41''"
proof -
  have b: "byte \<lparr>path = ''m.wasm'', data = [0x41], fpos = 30, rpos = 0\<rparr>
       = (Inr \<lparr>val = 0x41, dat = \<lparr>path = ''m.wasm'', data = [0x41], fpos = 30, rpos = 0\<rparr>\<rparr>,
          \<lparr>path = ''m.wasm'', data = [0x41], fpos = 30, rpos = 1\<rparr>)"
    by (simp add: byte_def load_def read_def Let_def)
  have h: "hex02 0x41 = ''41''" by code_simp
  show ?thesis
    using unknown_type_codes [of "\<lparr>stream = \<lparr>path = ''m.wasm'', data = [0x41], fpos = 30, rpos = 0\<rparr>, out = [], BYTESW = 8\<rparr>"
        "\<lparr>val = 0x41, dat = \<lparr>path = ''m.wasm'', data = [0x41], fpos = 30, rpos = 0\<rparr>\<rparr>"
        "\<lparr>path = ''m.wasm'', data = [0x41], fpos = 30, rpos = 1\<rparr>" "''  ''"] b h VALTYPE_0x41
    by simp
qed

text \<open>
  Claim C4 as first stated fails at the \<^verbatim>\<open>t+\<close> operand of \<^verbatim>\<open>select\<close>: the type byte \<^verbatim>\<open>0x41\<close> is in
  no table, and the instruction \<^verbatim>\<open>1C 01 41\<close> is decoded without error.
\<close>

theorem unknown_type_codes_counterexample:
  "instruction ascii_lib 1 0 2
     \<lparr>stream = \<lparr>path = ''m.wasm'', data = [0x1C, 0x01, 0x41, 0x0B], fpos = 30, rpos = 0\<rparr>,
      out = [], BYTESW = 8\<rparr>
   = (Inr ''select'',
      \<lparr>stream = \<lparr>path = ''m.wasm'', data = [0x1C, 0x01, 0x41, 0x0B], fpos = 30, rpos = 3\<rparr>,
       out = [Dprint (Some \<lparr>path = ''m.wasm'', data = [0x1C], fpos = 30, rpos = 0\<rparr>) [''  select''],
              Dprint (Some \<lparr>path = ''m.wasm'', data = [0x01], fpos = 31, rpos = 0\<rparr>)
                [''    --> (types=1)''],
              Dprint (Some \<lparr>path = ''m.wasm'', data = [0x41], fpos = 32, rpos = 0\<rparr>)
                [''    --> (valtype:0x41)'']],
       BYTESW = 8\<rparr>)
   \<and> VALTYPE 0x41 = None"
  by code_simp

end
